theory Spec2Isabelle
  imports Complex_Main
begin

section \<open>Narration and history store of the chemistry simulation\<close>

text \<open>
  The development embeds \<^verbatim>\<open>src/narration.js\<close> and \<^verbatim>\<open>src/history.js\<close>.

  Conventions of the embedding.
  \<^item> A JavaScript number is a \<^typ>\<open>real\<close>: arithmetic is exact, and the values
    \<^verbatim>\<open>NaN\<close> and \<^verbatim>\<open>Infinity\<close> are not numbers of the model. The one place where the
    source stores \<^verbatim>\<open>-Infinity\<close> (the last sample time, the best score of the causal
    selector) is an \<^typ>\<open>real option\<close> with \<open>None\<close> for \<^verbatim>\<open>-Infinity\<close>.
  \<^item> A property that the source guards with \<^verbatim>\<open>||\<close>, \<^verbatim>\<open>??\<close> or \<^verbatim>\<open>?.\<close> is optional
    (\<open>None\<close> is \<^verbatim>\<open>undefined\<close> or \<^verbatim>\<open>null\<close>); a property it reads unguarded is
    present.
  \<^item> The tile, the material registry and the reactions are objects. \<^verbatim>\<open>null\<close> occurs
    among the entries of the activity list, where the source filters it out, and among
    the entries of a product list: the functions on \<open>tile\<close> and \<open>entry\<close> are the source on
    product lists without \<^verbatim>\<open>null\<close>, and the functions on \<open>rawTile\<close> and \<open>rawEntry\<close>, most
    of them named with a final \<open>E\<close>, are the source on product lists that may hold
    \<^verbatim>\<open>null\<close>, with the \<^verbatim>\<open>TypeError\<close> of reading a property of \<^verbatim>\<open>null\<close> as a value.
  \<^item> A string is a \<^typ>\<open>string\<close>; its truthiness is being non-empty.
  \<^item> An object used as a dictionary is an association list in the order in which
    \<^verbatim>\<open>Object.keys\<close> enumerates it; a \<^verbatim>\<open>Map\<close> read by \<^verbatim>\<open>get\<close> only is a partial function.
\<close>

subsection \<open>Strings\<close>

definition startsWith :: "string \<Rightarrow> string \<Rightarrow> bool" where
  "startsWith s x = (take (length x) s = x)"

definition endsWith :: "string \<Rightarrow> string \<Rightarrow> bool" where
  "endsWith s x = (length x \<le> length s \<and> drop (length s - length x) s = x)"

fun str_includes :: "string \<Rightarrow> string \<Rightarrow> bool" where
  "str_includes [] key = (key = [])"
| "str_includes (c # cs) key = (startsWith (c # cs) key \<or> str_includes cs key)"

fun join :: "string \<Rightarrow> string list \<Rightarrow> string" where
  "join sep [] = []"
| "join sep [x] = x"
| "join sep (x # y # ys) = x @ sep @ join sep (y # ys)"

text \<open>Truthiness of an optional string: present and not empty.\<close>

fun truthy :: "string option \<Rightarrow> bool" where
  "truthy None = False"
| "truthy (Some s) = (s \<noteq> [])"

subsection \<open>History samples and trends\<close>

record sample =
  s_t :: real
  s_temp :: "real option"
  s_pressure :: "real option"
  s_pH :: "real option"
  s_gasSum :: "real option"

text \<open>The dynamic property read \<^verbatim>\<open>sample[field]\<close>.\<close>

definition getField :: "sample \<Rightarrow> string \<Rightarrow> real option" where
  "getField s field =
     (if field = ''t'' then Some (s_t s)
      else if field = ''temp'' then s_temp s
      else if field = ''pressure'' then s_pressure s
      else if field = ''pH'' then s_pH s
      else if field = ''gasSum'' then s_gasSum s
      else None)"

text \<open>\<^verbatim>\<open>x ?? 0\<close> and \<^verbatim>\<open>x || 0\<close> on an optional number.\<close>

fun orZero :: "real option \<Rightarrow> real" where
  "orZero None = 0"
| "orZero (Some v) = v"

definition lastN :: "sample list option \<Rightarrow> nat \<Rightarrow> sample list option" where
  "lastN history n =
     (case history of
        None \<Rightarrow> None
      | Some hs \<Rightarrow>
          if length hs < 2 then None
          else let k = min n (length hs) in Some (drop (length hs - k) hs))"

definition trendOf :: "sample list option \<Rightarrow> string \<Rightarrow> real \<Rightarrow> string" where
  "trendOf history field eps =
     (case lastN history 3 of
        None \<Rightarrow> ''flat''
      | Some h \<Rightarrow>
          if length h < 2 then ''flat''
          else
            let first = h ! 0; lastS = h ! (length h - 1);
                dt = (s_t lastS - s_t first) / 1000
            in if dt \<le> 0 then ''flat''
               else
                 let dv = orZero (getField lastS field) - orZero (getField first field);
                     slope = dv / dt
                 in if slope > eps then ''up''
                    else if slope < - eps then ''down''
                    else ''flat'')"

definition trendLabelTemp :: "sample list option \<Rightarrow> string" where
  "trendLabelTemp history =
     (let tr = trendOf history ''temp'' 0.05
      in if tr = ''up'' then '' (heating up)''
         else if tr = ''down'' then '' (cooling)''
         else '''')"

definition trendLabelPressure :: "sample list option \<Rightarrow> string option" where
  "trendLabelPressure history =
     (let tr = trendOf history ''pressure'' 0.02
      in if tr = ''up'' then Some ''pressure building''
         else if tr = ''down'' then Some ''venting''
         else None)"

definition trendLabelPH :: "sample list option \<Rightarrow> string option" where
  "trendLabelPH history =
     (case lastN history 3 of
        None \<Rightarrow> None
      | Some h \<Rightarrow>
          if length h < 2 then None
          else
            (case (s_pH (h ! 0), s_pH (h ! (length h - 1))) of
               (Some first, Some lastPH) \<Rightarrow>
                 let delta = lastPH - first
                 in if \<bar>delta\<bar> < 0.02 then None
                    else if lastPH > 6.8 \<and> lastPH < 7.2 then Some ''neutralizing''
                    else if delta > 0 then Some ''becoming more basic''
                    else Some ''becoming more acidic''
             | _ \<Rightarrow> None))"

definition trendLabelGas :: "sample list option \<Rightarrow> string option" where
  "trendLabelGas history =
     (let tr = trendOf history ''gasSum'' 0.01
      in if tr = ''up'' then Some ''gas building''
         else if tr = ''down'' then Some ''gas dissipating''
         else None)"

subsection \<open>Materials, reactions, activities and tiles\<close>

record material =
  displayName :: "string option"
  phaseSTP :: "string option"
  corrosivity :: "string option"
  hazardTags :: "string list option"
  flammability :: "string option"
  toxicity :: "string option"
  color :: "string option"

text \<open>
  The source tests \<^verbatim>\<open>emitGas\<close> and \<^verbatim>\<open>pressurePulse\<close> for truthiness only; the
  model keeps that truth value.
\<close>

record rx_effects =
  heatPerUnit :: "real option"
  emitGas :: bool
  pressurePulse :: bool

text \<open>\<open>reactants\<close> is \<^verbatim>\<open>rx.stoich?.reactants\<close>.\<close>

record reaction =
  rx_id :: string
  equation :: "string option"
  reactants :: "(string \<times> real) list option"
  phases :: "(string \<rightharpoonup> string) option"
  effects :: "rx_effects option"
  tags :: "string list option"

record product =
  p_id :: string
  qty :: "real option"

text \<open>
  An activity entry, with the type \<open>'p\<close> of the elements of its product list: a product
  in \<open>entry\<close>, a product or \<^verbatim>\<open>null\<close> in \<open>rawEntry\<close>.
\<close>

record 'p entry_of =
  e_id :: string
  extent :: "real option"
  limiter :: "string option"
  fizz :: bool
  heat :: bool
  products :: "'p list option"

type_synonym entry = "product entry_of"

type_synonym rawEntry = "product option entry_of"

text \<open>\<open>lastSampleAt = None\<close> is \<^verbatim>\<open>-Infinity\<close>.\<close>

record historyMeta =
  lastSampleAt :: "real option"

text \<open>
  \<open>species\<close> and \<open>gas\<close> are the aqueous and gas species maps, \<open>activity\<close> is
  \<^verbatim>\<open>tile._activity\<close> (its elements may be \<^verbatim>\<open>null\<close>), \<open>meta\<close> is
  \<^verbatim>\<open>tile._historyMeta\<close>.
\<close>

record 'e tile_of =
  temp :: real
  pH :: real
  moisture :: real
  pressure :: "real option"
  species :: "(string \<times> real) list option"
  gas :: "(string \<times> real) list option"
  history :: "sample list option"
  activity :: "'e option list option"
  meta :: "historyMeta option"

type_synonym tile = "entry tile_of"

type_synonym rawTile = "rawEntry tile_of"

text \<open>\<^verbatim>\<open>xs || []\<close> and \<^verbatim>\<open>obj || {}\<close>.\<close>

fun orEmpty :: "'a list option \<Rightarrow> 'a list" where
  "orEmpty None = []"
| "orEmpty (Some xs) = xs"

text \<open>\<^verbatim>\<open>rx.effects || {}\<close>.\<close>

fun orNoEffects :: "rx_effects option \<Rightarrow> rx_effects" where
  "orNoEffects None = \<lparr>heatPerUnit = None, emitGas = False, pressurePulse = False\<rparr>"
| "orNoEffects (Some fx) = fx"

text \<open>
  The reaction index \<^verbatim>\<open>Object.fromEntries(reactions.map(r => [r.id, r]))\<close>: of two
  reactions with one id the later one stays. Reaction ids are taken not to be names of
  properties of \<^verbatim>\<open>Object.prototype\<close>.
\<close>

definition rxIndex :: "reaction list \<Rightarrow> (string \<rightharpoonup> reaction)" where
  "rxIndex rs = map_of (rev (map (\<lambda>r. (rx_id r, r)) rs))"

subsection \<open>Names, hazards and phases\<close>

definition tag :: "reaction \<Rightarrow> string \<Rightarrow> bool" where
  "tag rx key = list_ex (\<lambda>t. str_includes t key) (orEmpty (tags rx))"

definition exoLevel :: "reaction \<Rightarrow> string option" where
  "exoLevel rx = find (\<lambda>t. startsWith t ''exothermic'') (orEmpty (tags rx))"

text \<open>
  The replacement \<^verbatim>\<open>id.replace(/_g$|_l$|\(.*?\)|_/g, s => s === '_' ? ' ' : '')\<close>, read
  left to right with the alternatives in their order. \<open>afterParen\<close> is the lazy
  \<^verbatim>\<open>.*?\)\<close>: the text behind the first closing parenthesis, if no line terminator comes
  before it. Identifiers are ASCII.
\<close>

definition isLineTerminator :: "char \<Rightarrow> bool" where
  "isLineTerminator c = (c = CHR 0x0A \<or> c = CHR 0x0D)"

definition isWhiteSpace :: "char \<Rightarrow> bool" where
  "isWhiteSpace c =
     (c = CHR 0x09 \<or> c = CHR 0x0A \<or> c = CHR 0x0B \<or> c = CHR 0x0C \<or> c = CHR 0x0D \<or> c = CHR '' '')"

fun afterParen :: "string \<Rightarrow> string option" where
  "afterParen [] = None"
| "afterParen (c # cs) =
     (if c = CHR '')'' then Some cs
      else if isLineTerminator c then None
      else afterParen cs)"

function replaceSuffixes :: "string \<Rightarrow> string" where
  "replaceSuffixes [] = []"
| "replaceSuffixes (c # cs) =
     (if c # cs = ''_g'' \<or> c # cs = ''_l'' then []
      else if c = CHR ''('' then
        (case afterParen cs of
           Some r \<Rightarrow> replaceSuffixes r
         | None \<Rightarrow> c # replaceSuffixes cs)
      else if c = CHR ''_'' then CHR '' '' # replaceSuffixes cs
      else c # replaceSuffixes cs)"
  by pat_completeness auto
termination
proof (relation "measure length")
  show "wf (measure length)" by simp
next
  fix c :: char and cs r :: string
  assume "afterParen cs = Some r"
  then have "length r < Suc (length cs)"
    by (induction cs) (auto split: if_splits)
  then show "(r, c # cs) \<in> measure length" by simp
qed simp_all

definition trim :: "string \<Rightarrow> string" where
  "trim s = rev (dropWhile isWhiteSpace (rev (dropWhile isWhiteSpace s)))"

definition niceName :: "(string \<rightharpoonup> material) \<Rightarrow> string \<Rightarrow> string" where
  "niceName M i =
     (case (case M i of None \<Rightarrow> None | Some m \<Rightarrow> displayName m) of
        Some d \<Rightarrow> if d \<noteq> [] then d else trim (replaceSuffixes i)
      | None \<Rightarrow> trim (replaceSuffixes i))"

text \<open>\<^verbatim>\<open>Set.add\<close> on the insertion-ordered set of tags.\<close>

definition setAdd :: "string list \<Rightarrow> string \<Rightarrow> string list" where
  "setAdd xs x = (if x \<in> set xs then xs else xs @ [x])"

definition hazardsFor :: "(string \<rightharpoonup> material) \<Rightarrow> string \<Rightarrow> string list" where
  "hazardsFor M i =
     (case M i of
        None \<Rightarrow> []
      | Some m \<Rightarrow>
          let t0 = foldl setAdd [] (orEmpty (hazardTags m));
              t1 = (if flammability m = Some ''high'' then setAdd t0 ''flammable'' else t0);
              t2 = (if corrosivity m = Some ''base'' \<or> corrosivity m = Some ''acid''
                    then setAdd t1 ''caustic'' else t1);
              t3 = (if corrosivity m = Some ''oxidizer'' \<or> ''oxidizer'' \<in> set t2
                    then setAdd t2 ''oxidizer'' else t2);
              t4 = (if toxicity m = Some ''high'' then setAdd t3 ''toxic'' else t3)
          in t4)"

definition hazardFlair :: "string list \<Rightarrow> string" where
  "hazardFlair hz =
     (if ''flammable'' \<in> set hz then '' (flammable)''
      else if ''toxic'' \<in> set hz then '' (toxic)''
      else if ''oxidizer'' \<in> set hz then '' (oxidizer)''
      else '''')"

definition colorWord :: "(string \<rightharpoonup> material) \<Rightarrow> string \<Rightarrow> string option" where
  "colorWord M i =
     (case M i of
        None \<Rightarrow> None
      | Some m \<Rightarrow> if truthy (color m) then color m else None)"

text \<open>\<^verbatim>\<open>rx?.phases?.[id] || materialRegistry.get(id)?.phaseSTP\<close>.\<close>

definition phaseOf :: "(string \<rightharpoonup> material) \<Rightarrow> reaction \<Rightarrow> string \<Rightarrow> string option" where
  "phaseOf M rx i =
     (let ph = (case phases rx of None \<Rightarrow> None | Some f \<Rightarrow> f i)
      in if truthy ph then ph
         else (case M i of None \<Rightarrow> None | Some m \<Rightarrow> phaseSTP m))"

definition isGasProduct :: "(string \<rightharpoonup> material) \<Rightarrow> string \<Rightarrow> reaction \<Rightarrow> bool" where
  "isGasProduct M i rx =
     (phaseOf M rx i = Some ''g'' \<or> endsWith i ''_g'' \<or> endsWith i ''(g)'')"

definition isSolidProduct :: "(string \<rightharpoonup> material) \<Rightarrow> string \<Rightarrow> reaction \<Rightarrow> bool" where
  "isSolidProduct M i rx = (phaseOf M rx i = Some ''s'' \<or> endsWith i ''(s)'')"

definition isBasicProduct :: "(string \<rightharpoonup> material) \<Rightarrow> string \<Rightarrow> bool" where
  "isBasicProduct M i = (case M i of None \<Rightarrow> False | Some m \<Rightarrow> corrosivity m = Some ''base'')"

definition isAcidicProduct :: "(string \<rightharpoonup> material) \<Rightarrow> string \<Rightarrow> bool" where
  "isAcidicProduct M i = (case M i of None \<Rightarrow> False | Some m \<Rightarrow> corrosivity m = Some ''acid'')"

subsection \<open>The causal selector\<close>

text \<open>\<^verbatim>\<open>score > bestScore\<close>, where \<open>None\<close> is the initial \<^verbatim>\<open>-Infinity\<close>.\<close>

fun scoreGreater :: "real \<Rightarrow> real option \<Rightarrow> bool" where
  "scoreGreater score None = True"
| "scoreGreater score (Some b) = (score > b)"

text \<open>
  The loop of \<^verbatim>\<open>pickActivity\<close> over the remaining entries; the state is
  \<^verbatim>\<open>(best, bestScore)\<close>. An absent predicate accepts every entry.
\<close>

fun pickLoop ::
  "(string \<rightharpoonup> reaction) \<Rightarrow> ('p entry_of \<Rightarrow> reaction \<Rightarrow> bool) option \<Rightarrow>
   'p entry_of option list \<Rightarrow> ('p entry_of \<times> reaction) option \<times> real option \<Rightarrow>
   ('p entry_of \<times> reaction) option \<times> real option" where
  "pickLoop ix predicate [] st = st"
| "pickLoop ix predicate (None # es) st = pickLoop ix predicate es st"
| "pickLoop ix predicate (Some e # es) (best, bestScore) =
     (if orZero (extent e) \<le> 0 then pickLoop ix predicate es (best, bestScore)
      else
        (case ix (e_id e) of
           None \<Rightarrow> pickLoop ix predicate es (best, bestScore)
         | Some rx \<Rightarrow>
             if (case predicate of None \<Rightarrow> False | Some p \<Rightarrow> \<not> p e rx)
             then pickLoop ix predicate es (best, bestScore)
             else
               let score = orZero (extent e)
               in if scoreGreater score bestScore
                  then pickLoop ix predicate es (Some (e, rx), Some score)
                  else pickLoop ix predicate es (best, bestScore)))"

definition pickActivity ::
  "(string \<rightharpoonup> reaction) \<Rightarrow> 'p entry_of tile_of \<Rightarrow> ('p entry_of \<Rightarrow> reaction \<Rightarrow> bool) option \<Rightarrow>
   ('p entry_of \<times> reaction) option" where
  "pickActivity ix tile predicate = fst (pickLoop ix predicate (orEmpty (activity tile)) (None, None))"

subsection \<open>Causal clauses\<close>

text \<open>The four predicates handed to \<^verbatim>\<open>pickActivity\<close>.\<close>

definition tempPredicate :: "'p entry_of \<Rightarrow> reaction \<Rightarrow> bool" where
  "tempPredicate e rx =
     (let fx = orNoEffects (effects rx)
      in heat e \<or> orZero (heatPerUnit fx) > 0
         \<or> list_ex (\<lambda>t. startsWith t ''exothermic'') (orEmpty (tags rx)))"

definition phPredicate :: "(string \<rightharpoonup> material) \<Rightarrow> string \<Rightarrow> entry \<Rightarrow> reaction \<Rightarrow> bool" where
  "phPredicate M dir e rx =
     (let prods = orEmpty (products e)
      in if dir = ''up'' then list_ex (\<lambda>p. isBasicProduct M (p_id p)) prods
         else list_ex (\<lambda>p. isAcidicProduct M (p_id p)) prods)"

definition gasPredicate :: "(string \<rightharpoonup> material) \<Rightarrow> entry \<Rightarrow> reaction \<Rightarrow> bool" where
  "gasPredicate M e rx =
     (let fx = orNoEffects (effects rx)
      in if emitGas fx then True
         else
           let prods = orEmpty (products e)
           in list_ex (\<lambda>p. isGasProduct M (p_id p) rx) prods \<or> tag rx ''gas_evolution'')"

definition pressurePredicate :: "(string \<rightharpoonup> material) \<Rightarrow> entry \<Rightarrow> reaction \<Rightarrow> bool" where
  "pressurePredicate M e rx =
     (let fx = orNoEffects (effects rx)
      in if pressurePulse fx then True
         else
           let prods = orEmpty (products e)
           in list_ex (\<lambda>p. isGasProduct M (p_id p) rx) prods \<or> tag rx ''gas_evolution'')"

text \<open>
  The loop that finds the gas-phase product of greatest quantity; the state is
  \<^verbatim>\<open>(gasId, gasQty)\<close>, starting at \<^verbatim>\<open>(null, 0)\<close>.
\<close>

fun topGasLoop ::
  "(string \<rightharpoonup> material) \<Rightarrow> reaction \<Rightarrow> product list \<Rightarrow> string option \<times> real \<Rightarrow>
   string option \<times> real" where
  "topGasLoop M rx [] st = st"
| "topGasLoop M rx (p # ps) (gasId, gasQty) =
     (if isGasProduct M (p_id p) rx then
        (let q = orZero (qty p)
         in if q > gasQty then topGasLoop M rx ps (Some (p_id p), q)
            else topGasLoop M rx ps (gasId, gasQty))
      else topGasLoop M rx ps (gasId, gasQty))"

definition becauseTemp ::
  "(string \<rightharpoonup> material) \<Rightarrow> (string \<rightharpoonup> reaction) \<Rightarrow> 'p entry_of tile_of \<Rightarrow> string option" where
  "becauseTemp M ix tile =
     (case pickActivity ix tile (Some tempPredicate) of
        None \<Rightarrow> None
      | Some (e, rx) \<Rightarrow>
          let rs = take 2 (map (niceName M) (map fst (orEmpty (reactants rx))));
              headS = (if length rs = 2 then rs ! 0 @ '' and '' @ rs ! 1
                       else if length rs = 1 then rs ! 0
                       else niceName M (rx_id rx))
          in Some (''temperature rising because '' @ headS @ '' react exothermically''))"

definition becausePH ::
  "(string \<rightharpoonup> material) \<Rightarrow> (string \<rightharpoonup> reaction) \<Rightarrow> tile \<Rightarrow> string \<Rightarrow> string option" where
  "becausePH M ix tile dir =
     (case pickActivity ix tile (Some (phPredicate M dir)) of
        None \<Rightarrow> None
      | Some (e, rx) \<Rightarrow>
          let prods = filter (\<lambda>p. if dir = ''up'' then isBasicProduct M (p_id p)
                                   else isAcidicProduct M (p_id p))
                        (orEmpty (products e));
              label = (case prods of [] \<Rightarrow> ''products'' | p # _ \<Rightarrow> niceName M (p_id p))
          in if dir = ''up''
             then Some (''pH increasing because '' @ label @ '' (basic) is forming'')
             else Some (''pH decreasing because '' @ label @ '' (acidic) is forming''))"

definition becauseGas ::
  "(string \<rightharpoonup> material) \<Rightarrow> (string \<rightharpoonup> reaction) \<Rightarrow> tile \<Rightarrow> string option" where
  "becauseGas M ix tile =
     (case pickActivity ix tile (Some (gasPredicate M)) of
        None \<Rightarrow> None
      | Some (e, rx) \<Rightarrow>
          let gasId = fst (topGasLoop M rx (orEmpty (products e)) (None, 0));
              gasName = (if truthy gasId then niceName M (the gasId) else ''gas'');
              hz = (if truthy gasId then hazardsFor M (the gasId) else []);
              flair = hazardFlair hz
          in Some (''gas increasing because '' @ gasName @ flair @ '' is being released''))"

definition becausePressure ::
  "(string \<rightharpoonup> material) \<Rightarrow> (string \<rightharpoonup> reaction) \<Rightarrow> tile \<Rightarrow> string option" where
  "becausePressure M ix tile =
     (case pickActivity ix tile (Some (pressurePredicate M)) of
        None \<Rightarrow> None
      | Some (e, rx) \<Rightarrow>
          let gasId = fst (topGasLoop M rx (orEmpty (products e)) (None, 0));
              gasName = (if truthy gasId then niceName M (the gasId) else ''gas'')
          in Some (''pressure building because '' @ gasName @ '' is accumulating''))"

subsection \<open>Phrases of a reaction\<close>

text \<open>
  \<^verbatim>\<open>Array.prototype.sort\<close> is stable; sorting by a comparator \<^verbatim>\<open>(a,b) => k(b) - k(a)\<close>
  is \<^const>\<open>sort_key\<close> on the negated key, which keeps the order of equal keys.
\<close>

definition describeLimiter :: "(string \<rightharpoonup> material) \<Rightarrow> string option \<Rightarrow> string" where
  "describeLimiter M l =
     (if \<not> truthy l \<or> l = Some ''rate'' then ''rate-limited''
      else ''limited by '' @ niceName M (the l))"

definition describeProducts ::
  "(string \<rightharpoonup> material) \<Rightarrow> product list option \<Rightarrow> reaction \<Rightarrow> string option" where
  "describeProducts M prods rx =
     (if orEmpty prods = [] then None
      else
        let sorted = sort_key (\<lambda>p. - orZero (qty p)) (orEmpty prods);
            top = map (\<lambda>p. niceName M (p_id p)) (take 3 sorted)
        in Some (join '', '' top))"

definition describeHeat :: "reaction \<Rightarrow> rx_effects \<Rightarrow> string option" where
  "describeHeat rx fx =
     (let exo = exoLevel rx
      in if truthy exo \<or> orZero (heatPerUnit fx) > 0 then Some ''heating the tile''
         else None)"

text \<open>
  The loop of \<^verbatim>\<open>describeGas\<close> over the products; the state is
  \<^verbatim>\<open>(productGas, productGasQty)\<close>.
\<close>

fun productGasLoop ::
  "(string \<rightharpoonup> material) \<Rightarrow> reaction \<Rightarrow> product list \<Rightarrow> string option \<times> real \<Rightarrow>
   string option \<times> real" where
  "productGasLoop M rx [] st = st"
| "productGasLoop M rx (p # ps) (productGas, productGasQty) =
     (if phaseOf M rx (p_id p) = Some ''g'' \<or> endsWith (p_id p) ''_g'' \<or> endsWith (p_id p) ''(g)''
      then
        (let q = orZero (qty p)
         in if \<not> truthy productGas \<or> q > productGasQty
            then productGasLoop M rx ps (Some (p_id p), q)
            else productGasLoop M rx ps (productGas, productGasQty))
      else productGasLoop M rx ps (productGas, productGasQty))"

text \<open>
  The tile handed to \<^verbatim>\<open>describeGas\<close> is the back-reference \<^verbatim>\<open>entry._tile\<close>, which may
  be absent.
\<close>

definition describeGas ::
  "(string \<rightharpoonup> material) \<Rightarrow> reaction \<Rightarrow> rx_effects \<Rightarrow> product list option \<Rightarrow>
   'e tile_of option \<Rightarrow> string option" where
  "describeGas M rx fx prods tileRef =
     (let rxSaysGas = tag rx ''gas_evolution'';
          fxAddsGas = emitGas fx;
          (productGas, productGasQty) = productGasLoop M rx (orEmpty prods) (None, 0);
          tileGasAll = (case tileRef of None \<Rightarrow> [] | Some tile \<Rightarrow> orEmpty (gas tile));
          tileGas = sort_key (\<lambda>(k, v). - v) (filter (\<lambda>(k, v). v > 0.05) tileGasAll);
          label0 = (case tileGas of
                      [] \<Rightarrow> None
                    | (i, val) # _ \<Rightarrow>
                        if \<not> truthy productGas \<or> val > productGasQty * 1.25 then Some i
                        else None);
          label = (if \<not> truthy label0 \<and> truthy productGas then productGas else label0)
      in if truthy label then
           Some (''releasing '' @ niceName M (the label) @ hazardFlair (hazardsFor M (the label)))
         else if rxSaysGas \<or> fxAddsGas \<or> truthy productGas then Some ''releasing gas''
         else None)"

definition reactionLabel :: "reaction \<Rightarrow> string" where
  "reactionLabel rx =
     (if truthy (equation rx) then the (equation rx)
      else map (\<lambda>c. if c = CHR ''_'' then CHR '' '' else c)
             (if rx_id rx \<noteq> [] then rx_id rx else ''reaction''))"

definition actorPhrase :: "(string \<rightharpoonup> material) \<Rightarrow> reaction \<Rightarrow> string" where
  "actorPhrase M rx =
     (let rcts = map fst (orEmpty (reactants rx));
          hasWater = list_ex (\<lambda>i. i = ''H2O'' \<or> i = ''H2O_g'' \<or> i = ''H2O(g)'' \<or> i = ''H2O(l)'') rcts;
          hasAcid = list_ex (\<lambda>i. case M i of None \<Rightarrow> False
                       | Some m \<Rightarrow> corrosivity m = Some ''acid'' \<or> ''acid'' \<in> set (orEmpty (hazardTags m))) rcts;
          hasBase = list_ex (\<lambda>i. case M i of None \<Rightarrow> False
                       | Some m \<Rightarrow> corrosivity m = Some ''base'' \<or> ''base'' \<in> set (orEmpty (hazardTags m))) rcts;
          hasMetal = list_ex (\<lambda>i. case M i of None \<Rightarrow> False
                       | Some m \<Rightarrow> phaseSTP m = Some ''s''
                                   \<and> ''water_reactive'' \<in> set (orEmpty (hazardTags m))) rcts
      in if hasAcid \<and> hasBase then ''The acid is neutralizing the base''
         else if hasMetal \<and> hasWater then ''The metal is reacting with water''
         else if hasAcid then ''The acid is reacting with a reactant''
         else if hasBase then ''The base is reacting with a reactant''
         else ''A reaction is proceeding'')"

text \<open>Decimal digits of an integer, as a template literal prints it.\<close>

fun showNat :: "nat \<Rightarrow> string" where
  "showNat n =
     (if n < 10 then [''0123456789'' ! n]
      else showNat (n div 10) @ [''0123456789'' ! (n mod 10)])"

definition showInt :: "int \<Rightarrow> string" where
  "showInt i = (if i < 0 then CHR ''-'' # showNat (nat (- i)) else showNat (nat i))"

text \<open>\<^verbatim>\<open>Math.round\<close> rounds a half upwards.\<close>

definition mathRound :: "real \<Rightarrow> int" where
  "mathRound x = \<lfloor>x + 1 / 2\<rfloor>"

text \<open>\<^verbatim>\<open>idx = xs.indexOf(x); if (idx >= 0) xs.splice(idx, 1, y)\<close>.\<close>

fun replaceFirst :: "string \<Rightarrow> string \<Rightarrow> string list \<Rightarrow> string list" where
  "replaceFirst x y [] = []"
| "replaceFirst x y (z # zs) = (if z = x then y # zs else z # replaceFirst x y zs)"

text \<open>
  \<open>tileRef\<close> is \<^verbatim>\<open>entry._tile\<close>, the back-reference that \<^verbatim>\<open>narrateTile\<close> attaches to the
  entry before the call.
\<close>

definition describeReactionEntry ::
  "(string \<rightharpoonup> material) \<Rightarrow> (string \<rightharpoonup> reaction) \<Rightarrow> entry \<Rightarrow> 'e tile_of option \<Rightarrow> string option" where
  "describeReactionEntry M ix e tileRef =
     (case ix (e_id e) of
        None \<Rightarrow> None
      | Some rx \<Rightarrow>
          let fx = orNoEffects (effects rx);
              actor = actorPhrase M rx;
              heatC = describeHeat rx fx;
              c1 = (case heatC of None \<Rightarrow> [] | Some h \<Rightarrow> [h]);
              gasC = describeGas M rx fx (products e) tileRef;
              c2 = (case gasC of None \<Rightarrow> c1 | Some g \<Rightarrow> c1 @ [g]);
              prods = describeProducts M (products e) rx;
              consequences =
                (if truthy prods \<and> gasC = None then
                   (case find (\<lambda>p. isSolidProduct M (p_id p) rx) (orEmpty (products e)) of
                      Some solid \<Rightarrow>
                        let col = colorWord M (p_id solid);
                            label = niceName M (p_id solid)
                        in (case col of
                              Some c \<Rightarrow> c2 @ [''forming a '' @ c @ '' precipitate ('' @ label @ '')'']
                            | None \<Rightarrow> c2 @ [''forming a precipitate ('' @ label @ '')''])
                    | None \<Rightarrow> c2 @ [''forming '' @ the prods])
                 else if truthy prods \<and> gasC \<noteq> None then
                   (case find (\<lambda>p. isGasProduct M (p_id p) rx) (orEmpty (products e)) of
                      Some gasName \<Rightarrow>
                        replaceFirst ''releasing gas'' (''releasing '' @ niceName M (p_id gasName)) c2
                    | None \<Rightarrow> c2)
                 else c2);
              limText = describeLimiter M (limiter e);
              intensity = mathRound (min 1 (orZero (extent e)) * 100);
              consText = (if consequences \<noteq> [] then '', '' @ join '' and '' consequences else '''')
          in Some (actor @ consText @ ''. Intensity '' @ showInt intensity @ ''%, '' @ limText @ ''.''))"

subsection \<open>Production insights\<close>

text \<open>
  The insertion-ordered \<^verbatim>\<open>Map\<close> from a product id to the array of its sources
  \<^verbatim>\<open>{entry, rx, qty}\<close>: a new key goes to the end, a known key keeps its place and its
  array grows.
\<close>

type_synonym source = "entry \<times> reaction \<times> real"

fun pushSource :: "string \<Rightarrow> 'a \<Rightarrow> (string \<times> 'a list) list \<Rightarrow> (string \<times> 'a list) list" where
  "pushSource k v [] = [(k, [v])]"
| "pushSource k v ((k', vs) # rest) =
     (if k = k' then (k', vs @ [v]) # rest else (k', vs) # pushSource k v rest)"

text \<open>
  The inner loop on a product list without \<^verbatim>\<open>null\<close>; the guard \<^verbatim>\<open>!prod\<close> of the source is in
  \<open>productLoopE\<close> below.
\<close>

fun productLoop ::
  "entry \<Rightarrow> reaction \<Rightarrow> product list \<Rightarrow> (string \<times> source list) list \<Rightarrow> (string \<times> source list) list" where
  "productLoop e rx [] productions = productions"
| "productLoop e rx (p # ps) productions =
     (if orZero (qty p) \<le> 0 then productLoop e rx ps productions
      else productLoop e rx ps (pushSource (p_id p) (e, rx, orZero (qty p)) productions))"

fun productionLoop ::
  "(string \<rightharpoonup> reaction) \<Rightarrow> entry option list \<Rightarrow> (string \<times> source list) list \<Rightarrow>
   (string \<times> source list) list" where
  "productionLoop ix [] productions = productions"
| "productionLoop ix (None # es) productions = productionLoop ix es productions"
| "productionLoop ix (Some e # es) productions =
     (if orZero (extent e) \<le> 0 then productionLoop ix es productions
      else
        (case ix (e_id e) of
           None \<Rightarrow> productionLoop ix es productions
         | Some rx \<Rightarrow> productionLoop ix es (productLoop e rx (orEmpty (products e)) productions)))"

text \<open>
  The line of one product. Every array of the map has an element, so the case of no
  source does not occur; the source would raise there.
\<close>

definition productionLine ::
  "(string \<rightharpoonup> material) \<Rightarrow> string \<times> ('p entry_of \<times> reaction \<times> real) list \<Rightarrow> string option" where
  "productionLine M ps =
     (case ps of
        (prodId, []) \<Rightarrow> None
      | (prodId, (e, rx, q) # others) \<Rightarrow>
          let prodName = niceName M prodId;
              sourceLabels = foldl setAdd [] (map (\<lambda>(e', rx', q'). reactionLabel rx') ((e, rx, q) # others));
              limiterName = (if truthy (limiter e) \<and> limiter e \<noteq> Some ''rate''
                             then Some (niceName M (the (limiter e))) else None);
              rs = map (niceName M) (map fst (orEmpty (reactants rx)));
              increase = (if truthy limiterName then ''adding more '' @ the limiterName
                          else if rs \<noteq> [] then ''supplying more '' @ join '', '' rs
                          else ''supplying more reactants'');
              decrease = (if rs \<noteq> [] then ''removing '' @ join '', '' rs
                          else ''reducing the available reactants'')
          in Some (prodName @ '' is being produced by '' @ join '' and '' sourceLabels
                   @ ''. Increase production by '' @ increase @ ''. Reduce it by '' @ decrease @ ''.''))"

definition buildProductionInsights ::
  "(string \<rightharpoonup> material) \<Rightarrow> (string \<rightharpoonup> reaction) \<Rightarrow> tile \<Rightarrow> string list" where
  "buildProductionInsights M ix tile =
     List.map_filter (productionLine M) (productionLoop ix (orEmpty (activity tile)) [])"

subsection \<open>The summary of a tile and the narration\<close>

definition tempWord :: "'e tile_of \<Rightarrow> string" where
  "tempWord tile =
     (if temp tile \<ge> 120 then ''very hot''
      else if temp tile \<ge> 60 then ''hot''
      else if temp tile \<le> 0 then ''freezing''
      else if temp tile < 20 then ''cool''
      else ''temperate'')"

definition pHWord :: "'e tile_of \<Rightarrow> string" where
  "pHWord tile =
     (if pH tile \<le> 2 then ''strongly acidic''
      else if pH tile < 6 then ''slightly acidic''
      else if pH tile > 8 \<and> pH tile < 12 then ''slightly basic''
      else if pH tile \<ge> 12 then ''strongly basic''
      else ''near neutral'')"

text \<open>The list \<^verbatim>\<open>bits\<close> of descriptors.\<close>

definition bits :: "'e tile_of \<Rightarrow> string list" where
  "bits tile =
     (let gasLevel = foldl (\<lambda>a v. a + v) 0 (map snd (orEmpty (gas tile)))
      in [tempWord tile @ trendLabelTemp (history tile), pHWord tile]
         @ (if gasLevel > 1 then [''gassy'']
            else if gasLevel > 0.1 then [''traces of gas'']
            else [])
         @ (if orZero (pressure tile) > 4 then [''pressurized''] else []))"

text \<open>The list \<^verbatim>\<open>[pTrend, phTrend, gTrend].filter(Boolean)\<close>.\<close>

definition trendBits :: "'e tile_of \<Rightarrow> string list" where
  "trendBits tile =
     List.map_filter (\<lambda>x. x)
       [trendLabelPressure (history tile), trendLabelPH (history tile), trendLabelGas (history tile)]"

definition becauseBits ::
  "(string \<rightharpoonup> material) \<Rightarrow> (string \<rightharpoonup> reaction) \<Rightarrow> tile \<Rightarrow> string list" where
  "becauseBits M ix tile =
     (let tempTrend = trendLabelTemp (history tile);
          pTrend = trendLabelPressure (history tile);
          phTrend = trendLabelPH (history tile);
          gTrend = trendLabelGas (history tile);
          b1 = (if str_includes tempTrend ''heating up''
                then (case becauseTemp M ix tile of None \<Rightarrow> [] | Some b \<Rightarrow> [b]) else []);
          b2 = (if pTrend = Some ''pressure building''
                then (case becausePressure M ix tile of None \<Rightarrow> [] | Some b \<Rightarrow> [b]) else []);
          b3 = (case phTrend of
                  None \<Rightarrow> []
                | Some ph \<Rightarrow>
                    let dir = (if str_includes ph ''basic'' then Some ''up''
                               else if str_includes ph ''acidic'' then Some ''down''
                               else None)
                    in (case dir of
                          None \<Rightarrow> []
                        | Some d \<Rightarrow> (case becausePH M ix tile d of None \<Rightarrow> [] | Some b \<Rightarrow> [b])));
          b4 = (if gTrend = Some ''gas building''
                then (case becauseGas M ix tile of None \<Rightarrow> [] | Some b \<Rightarrow> [b]) else [])
      in b1 @ b2 @ b3 @ b4)"

definition speciesPairs :: "(string \<rightharpoonup> material) \<Rightarrow> 'e tile_of \<Rightarrow> string list" where
  "speciesPairs M tile =
     map (\<lambda>(k, v). niceName M k)
       (take 2 (sort_key (\<lambda>(k, v). - v) (filter (\<lambda>(k, v). v > 0.0001) (orEmpty (species tile)))))"

definition summarizeTile ::
  "(string \<rightharpoonup> material) \<Rightarrow> (string \<rightharpoonup> reaction) \<Rightarrow> tile \<Rightarrow> string" where
  "summarizeTile M ix tile =
     (let bs = bits tile;
          ts = trendBits tile;
          headS = (if bs \<noteq> [] then join '', '' bs else ''stable'')
                  @ (if ts \<noteq> [] then ''; '' @ join '', '' ts else '''');
          bb = becauseBits M ix tile;
          becauseText = (if bb \<noteq> [] then '' Because: '' @ join ''; '' bb @ ''.'' else '''');
          sp = speciesPairs M tile;
          speciesText = (if sp \<noteq> [] then '' Notable species: '' @ join '', '' sp @ ''.'' else '''')
      in ''This tile is '' @ headS @ ''.'' @ becauseText @ speciesText)"

text \<open>The list \<^verbatim>\<open>acts\<close>: the first three non-null entries by descending extent.\<close>

definition acts :: "'p entry_of tile_of \<Rightarrow> 'p entry_of list" where
  "acts tile =
     take 3 (sort_key (\<lambda>a. - orZero (extent a)) (List.map_filter (\<lambda>x. x) (orEmpty (activity tile))))"

definition narrateTile ::
  "(string \<rightharpoonup> material) \<Rightarrow> (string \<rightharpoonup> reaction) \<Rightarrow> tile \<Rightarrow> string list" where
  "narrateTile M ix tile =
     (let lines0 = [summarizeTile M ix tile];
          lines1 = lines0 @ List.map_filter (\<lambda>a. describeReactionEntry M ix a (Some tile)) (acts tile);
          productionLines = buildProductionInsights M ix tile;
          lines2 = lines1 @ productionLines
      in if acts tile = [] \<and> productionLines = []
         then lines2 @ [''No active reactions detected.'']
         else lines2)"

subsection \<open>The history store\<close>

definition HISTORY_DURATION_MS :: real where
  "HISTORY_DURATION_MS = 10000"

definition HISTORY_SAMPLE_MS :: real where
  "HISTORY_SAMPLE_MS = 150"

text \<open>
  \<^verbatim>\<open>ensureHistoryBuffer\<close> on a tile that is not \<^verbatim>\<open>null\<close>: a missing history becomes the
  empty array, a missing \<^verbatim>\<open>_historyMeta\<close> becomes \<^verbatim>\<open>{lastSampleAt: -Infinity}\<close>. The
  model returns the tile as the call leaves it.
\<close>

definition ensureHistoryBuffer :: "tile \<Rightarrow> tile" where
  "ensureHistoryBuffer tile =
     tile\<lparr>history := Some (orEmpty (history tile)),
          meta := Some (case meta tile of None \<Rightarrow> \<lparr>lastSampleAt = None\<rparr> | Some m \<Rightarrow> m)\<rparr>"

text \<open>
  The throttle \<^verbatim>\<open>meta && (now - (meta.lastSampleAt||-Infinity)) < HISTORY_SAMPLE_MS\<close>:
  a last sample time of \<^verbatim>\<open>0\<close> is falsy and reads as \<^verbatim>\<open>-Infinity\<close>, and the difference to
  \<^verbatim>\<open>-Infinity\<close> is never below the sampling period.
\<close>

definition throttled :: "real \<Rightarrow> tile \<Rightarrow> bool" where
  "throttled now tile =
     (case meta (ensureHistoryBuffer tile) of
        None \<Rightarrow> False
      | Some m \<Rightarrow>
          (case lastSampleAt m of
             None \<Rightarrow> False
           | Some l \<Rightarrow> if l = 0 then False else now - l < HISTORY_SAMPLE_MS))"

text \<open>The body of the loop of \<^verbatim>\<open>recordSubscribedHistories\<close> for one subscribed tile.\<close>

definition recordTile :: "real \<Rightarrow> tile \<Rightarrow> tile" where
  "recordTile now tile =
     (let cutoff = now - HISTORY_DURATION_MS;
          tile1 = ensureHistoryBuffer tile
      in if throttled now tile then tile1
         else
           let h1 = orEmpty (history tile1)
                    @ [\<lparr>s_t = now, s_temp = Some (temp tile), s_pressure = Some (orZero (pressure tile)),
                        s_pH = None, s_gasSum = None\<rparr>];
               h2 = dropWhile (\<lambda>s. s_t s < cutoff) h1;
               h3 = (if length h2 > 200 then tl h2 else h2)
           in tile1\<lparr>history := Some h3, meta := Some \<lparr>lastSampleAt = Some now\<rparr>\<rparr>)"

text \<open>The subscribers, in the iteration order of the \<^verbatim>\<open>Set\<close>.\<close>

definition recordSubscribedHistories :: "real \<Rightarrow> tile list \<Rightarrow> tile list" where
  "recordSubscribedHistories now subscribers =
     (if subscribers = [] then subscribers else map (recordTile now) subscribers)"

text \<open>
  \<^verbatim>\<open>subscribeHistory\<close> and \<^verbatim>\<open>unsubscribeHistory\<close> on a tile that is not \<^verbatim>\<open>null\<close>, as they
  leave the tile; the \<^verbatim>\<open>Set\<close> of subscribers is the list handed to
  \<open>recordSubscribedHistories\<close>. Unsubscribing empties the buffer only on request and sets
  the last sample time back to \<^verbatim>\<open>-Infinity\<close>.
\<close>

definition subscribeHistory :: "tile \<Rightarrow> tile" where
  "subscribeHistory tile = ensureHistoryBuffer tile"

definition unsubscribeHistory :: "bool \<Rightarrow> tile \<Rightarrow> tile" where
  "unsubscribeHistory clear tile =
     tile\<lparr>history := (if clear \<and> history tile \<noteq> None then Some [] else history tile),
          meta := (case meta tile of None \<Rightarrow> None | Some m \<Rightarrow> Some (m\<lparr>lastSampleAt := None\<rparr>))\<rparr>"

subsection \<open>The trend contract, in the words of the specification\<close>

text \<open>
  The trend of a field as the specification words it: on the last \<open>min 3 (length hs)\<close>
  samples, flat below two samples or when no time has elapsed, otherwise by the slope
  between the first and the last sample of the window, a missing value read as \<open>0\<close>.
\<close>

definition trend_spec :: "sample list \<Rightarrow> string \<Rightarrow> real \<Rightarrow> string" where
  "trend_spec hs field eps =
     (let w = drop (length hs - min 3 (length hs)) hs
      in if length hs < 2 then ''flat''
         else
           let elapsedSeconds = (s_t (last w) - s_t (hd w)) / 1000
           in if elapsedSeconds \<le> 0 then ''flat''
              else
                let slope = (orZero (getField (last w) field) - orZero (getField (hd w) field))
                            / elapsedSeconds
                in if slope > eps then ''up''
                   else if slope < - eps then ''down''
                   else ''flat'')"

subsection \<open>The causal selector, in the words of the specification\<close>

text \<open>
  The candidates that survive: the entries that are not \<^verbatim>\<open>null\<close>, have a positive
  extent, name a reaction of the index and pass the predicate, each with its reaction, in
  the order of the activity list.
\<close>

definition accepts ::
  "('p entry_of \<Rightarrow> reaction \<Rightarrow> bool) option \<Rightarrow> 'p entry_of \<Rightarrow> reaction \<Rightarrow> bool" where
  "accepts predicate e rx = (case predicate of None \<Rightarrow> True | Some p \<Rightarrow> p e rx)"

fun survivors ::
  "(string \<rightharpoonup> reaction) \<Rightarrow> ('p entry_of \<Rightarrow> reaction \<Rightarrow> bool) option \<Rightarrow>
   'p entry_of option list \<Rightarrow> ('p entry_of \<times> reaction) list" where
  "survivors ix predicate [] = []"
| "survivors ix predicate (None # es) = survivors ix predicate es"
| "survivors ix predicate (Some e # es) =
     (if orZero (extent e) \<le> 0 then survivors ix predicate es
      else
        (case ix (e_id e) of
           None \<Rightarrow> survivors ix predicate es
         | Some rx \<Rightarrow>
             if accepts predicate e rx then (e, rx) # survivors ix predicate es
             else survivors ix predicate es))"

definition score :: "'p entry_of \<times> reaction \<Rightarrow> real" where
  "score hit = orZero (extent (fst hit))"

text \<open>The first of the candidates \<open>h # xs\<close> that has the greatest score.\<close>

fun firstMax ::
  "'p entry_of \<times> reaction \<Rightarrow> ('p entry_of \<times> reaction) list \<Rightarrow> 'p entry_of \<times> reaction" where
  "firstMax h [] = h"
| "firstMax h (x # xs) = (if score x > score h then firstMax x xs else firstMax h xs)"

subsection \<open>The place of an entry among the selected\<close>

text \<open>
  The entries of an activity list that are not \<^verbatim>\<open>null\<close>, and the number of them that the
  stable sort by descending extent puts before the entry \<open>e\<close> of the list
  \<open>xs @ Some e # ys\<close>: those of greater extent, and those of equal extent that stand before
  it.
\<close>

definition nonNull :: "entry option list \<Rightarrow> entry list" where
  "nonNull es = List.map_filter (\<lambda>x. x) es"

definition precede :: "entry \<Rightarrow> entry option list \<Rightarrow> entry option list \<Rightarrow> nat" where
  "precede e xs ys =
     length (filter (\<lambda>a. orZero (extent a) > orZero (extent e)) (nonNull (xs @ ys)))
     + length (filter (\<lambda>a. orZero (extent a) = orZero (extent e)) (nonNull xs))"

subsection \<open>Product lists that hold null\<close>

text \<open>
  The source guards a \<^verbatim>\<open>null\<close> element of a product list in \<^verbatim>\<open>buildProductionInsights\<close>
  only (\<^verbatim>\<open>if(!prod || ...) continue\<close>). Everywhere else it reads \<^verbatim>\<open>p.id\<close> of each element it
  visits, and reading a property of \<^verbatim>\<open>null\<close> raises a \<^verbatim>\<open>TypeError\<close>, which no function of
  the source catches.
\<close>

datatype jsError = TypeError

text \<open>
  \<^verbatim>\<open>prods.some(p => f(p.id))\<close> stops at the first hit: it raises on a \<^verbatim>\<open>null\<close> that comes
  before the first hit.
\<close>

fun someP :: "(product \<Rightarrow> bool) \<Rightarrow> product option list \<Rightarrow> jsError + bool" where
  "someP f [] = Inr False"
| "someP f (None # ps) = Inl TypeError"
| "someP f (Some p # ps) = (if f p then Inr True else someP f ps)"

text \<open>
  A \<^verbatim>\<open>for\<close> loop or a \<^verbatim>\<open>filter\<close> whose body reads \<^verbatim>\<open>p.id\<close> visits every element: it
  raises on any \<^verbatim>\<open>null\<close>, and otherwise runs on a list of products.
\<close>

fun eachP :: "product option list \<Rightarrow> jsError + product list" where
  "eachP [] = Inr []"
| "eachP (None # ps) = Inl TypeError"
| "eachP (Some p # ps) = (case eachP ps of Inl err \<Rightarrow> Inl err | Inr r \<Rightarrow> Inr (p # r))"

text \<open>
  The predicates that read the product list, and the causal selector with them; their
  callers always hand a predicate, so it is not optional here.
\<close>

definition phPredicateE ::
  "(string \<rightharpoonup> material) \<Rightarrow> string \<Rightarrow> rawEntry \<Rightarrow> reaction \<Rightarrow> jsError + bool" where
  "phPredicateE M dir e rx =
     (let prods = orEmpty (products e)
      in if dir = ''up'' then someP (\<lambda>p. isBasicProduct M (p_id p)) prods
         else someP (\<lambda>p. isAcidicProduct M (p_id p)) prods)"

definition gasPredicateE ::
  "(string \<rightharpoonup> material) \<Rightarrow> rawEntry \<Rightarrow> reaction \<Rightarrow> jsError + bool" where
  "gasPredicateE M e rx =
     (let fx = orNoEffects (effects rx)
      in if emitGas fx then Inr True
         else
           let prods = orEmpty (products e)
           in (case someP (\<lambda>p. isGasProduct M (p_id p) rx) prods of
                 Inl err \<Rightarrow> Inl err
               | Inr b \<Rightarrow> Inr (b \<or> tag rx ''gas_evolution'')))"

definition pressurePredicateE ::
  "(string \<rightharpoonup> material) \<Rightarrow> rawEntry \<Rightarrow> reaction \<Rightarrow> jsError + bool" where
  "pressurePredicateE M e rx =
     (let fx = orNoEffects (effects rx)
      in if pressurePulse fx then Inr True
         else
           let prods = orEmpty (products e)
           in (case someP (\<lambda>p. isGasProduct M (p_id p) rx) prods of
                 Inl err \<Rightarrow> Inl err
               | Inr b \<Rightarrow> Inr (b \<or> tag rx ''gas_evolution'')))"

fun pickLoopE ::
  "(string \<rightharpoonup> reaction) \<Rightarrow> (rawEntry \<Rightarrow> reaction \<Rightarrow> jsError + bool) \<Rightarrow> rawEntry option list \<Rightarrow>
   (rawEntry \<times> reaction) option \<times> real option \<Rightarrow>
   jsError + (rawEntry \<times> reaction) option \<times> real option" where
  "pickLoopE ix predicate [] st = Inr st"
| "pickLoopE ix predicate (None # es) st = pickLoopE ix predicate es st"
| "pickLoopE ix predicate (Some e # es) (best, bestScore) =
     (if orZero (extent e) \<le> 0 then pickLoopE ix predicate es (best, bestScore)
      else
        (case ix (e_id e) of
           None \<Rightarrow> pickLoopE ix predicate es (best, bestScore)
         | Some rx \<Rightarrow>
             (case predicate e rx of
                Inl err \<Rightarrow> Inl err
              | Inr ok \<Rightarrow>
                  if \<not> ok then pickLoopE ix predicate es (best, bestScore)
                  else
                    let score = orZero (extent e)
                    in if scoreGreater score bestScore
                       then pickLoopE ix predicate es (Some (e, rx), Some score)
                       else pickLoopE ix predicate es (best, bestScore))))"

definition pickActivityE ::
  "(string \<rightharpoonup> reaction) \<Rightarrow> rawTile \<Rightarrow> (rawEntry \<Rightarrow> reaction \<Rightarrow> jsError + bool) \<Rightarrow>
   jsError + (rawEntry \<times> reaction) option" where
  "pickActivityE ix tile predicate =
     (case pickLoopE ix predicate (orEmpty (activity tile)) (None, None) of
        Inl err \<Rightarrow> Inl err
      | Inr st \<Rightarrow> Inr (fst st))"

text \<open>
  The causal clauses. After the selection, \<^verbatim>\<open>becausePH\<close> filters the products of the hit
  and \<^verbatim>\<open>becauseGas\<close> and \<^verbatim>\<open>becausePressure\<close> loop over them. \<^verbatim>\<open>becauseTemp\<close> reads no
  product and is the function above.
\<close>

definition becausePHE ::
  "(string \<rightharpoonup> material) \<Rightarrow> (string \<rightharpoonup> reaction) \<Rightarrow> rawTile \<Rightarrow> string \<Rightarrow> jsError + string option" where
  "becausePHE M ix tile dir =
     (case pickActivityE ix tile (phPredicateE M dir) of
        Inl err \<Rightarrow> Inl err
      | Inr None \<Rightarrow> Inr None
      | Inr (Some (e, rx)) \<Rightarrow>
          (case eachP (orEmpty (products e)) of
             Inl err \<Rightarrow> Inl err
           | Inr ps \<Rightarrow>
               let prods = filter (\<lambda>p. if dir = ''up'' then isBasicProduct M (p_id p)
                                        else isAcidicProduct M (p_id p)) ps;
                   label = (case prods of [] \<Rightarrow> ''products'' | p # _ \<Rightarrow> niceName M (p_id p))
               in if dir = ''up''
                  then Inr (Some (''pH increasing because '' @ label @ '' (basic) is forming''))
                  else Inr (Some (''pH decreasing because '' @ label @ '' (acidic) is forming''))))"

definition becauseGasE ::
  "(string \<rightharpoonup> material) \<Rightarrow> (string \<rightharpoonup> reaction) \<Rightarrow> rawTile \<Rightarrow> jsError + string option" where
  "becauseGasE M ix tile =
     (case pickActivityE ix tile (gasPredicateE M) of
        Inl err \<Rightarrow> Inl err
      | Inr None \<Rightarrow> Inr None
      | Inr (Some (e, rx)) \<Rightarrow>
          (case eachP (orEmpty (products e)) of
             Inl err \<Rightarrow> Inl err
           | Inr ps \<Rightarrow>
               let gasId = fst (topGasLoop M rx ps (None, 0));
                   gasName = (if truthy gasId then niceName M (the gasId) else ''gas'');
                   hz = (if truthy gasId then hazardsFor M (the gasId) else []);
                   flair = hazardFlair hz
               in Inr (Some (''gas increasing because '' @ gasName @ flair @ '' is being released''))))"

definition becausePressureE ::
  "(string \<rightharpoonup> material) \<Rightarrow> (string \<rightharpoonup> reaction) \<Rightarrow> rawTile \<Rightarrow> jsError + string option" where
  "becausePressureE M ix tile =
     (case pickActivityE ix tile (pressurePredicateE M) of
        Inl err \<Rightarrow> Inl err
      | Inr None \<Rightarrow> Inr None
      | Inr (Some (e, rx)) \<Rightarrow>
          (case eachP (orEmpty (products e)) of
             Inl err \<Rightarrow> Inl err
           | Inr ps \<Rightarrow>
               let gasId = fst (topGasLoop M rx ps (None, 0));
                   gasName = (if truthy gasId then niceName M (the gasId) else ''gas'')
               in Inr (Some (''pressure building because '' @ gasName @ '' is accumulating''))))"

definition becauseBitsE ::
  "(string \<rightharpoonup> material) \<Rightarrow> (string \<rightharpoonup> reaction) \<Rightarrow> rawTile \<Rightarrow> jsError + string list" where
  "becauseBitsE M ix tile =
     (let tempTrend = trendLabelTemp (history tile);
          pTrend = trendLabelPressure (history tile);
          phTrend = trendLabelPH (history tile);
          gTrend = trendLabelGas (history tile);
          b1 = (if str_includes tempTrend ''heating up''
                then (case becauseTemp M ix tile of None \<Rightarrow> [] | Some b \<Rightarrow> [b]) else [])
      in (case (if pTrend = Some ''pressure building'' then becausePressureE M ix tile else Inr None) of
            Inl err \<Rightarrow> Inl err
          | Inr r2 \<Rightarrow>
              let dir = (case phTrend of
                           None \<Rightarrow> None
                         | Some ph \<Rightarrow>
                             if str_includes ph ''basic'' then Some ''up''
                             else if str_includes ph ''acidic'' then Some ''down''
                             else None)
              in (case (case dir of None \<Rightarrow> Inr None | Some d \<Rightarrow> becausePHE M ix tile d) of
                    Inl err \<Rightarrow> Inl err
                  | Inr r3 \<Rightarrow>
                      (case (if gTrend = Some ''gas building'' then becauseGasE M ix tile else Inr None) of
                         Inl err \<Rightarrow> Inl err
                       | Inr r4 \<Rightarrow>
                           Inr (b1 @ (case r2 of None \<Rightarrow> [] | Some b \<Rightarrow> [b])
                                @ (case r3 of None \<Rightarrow> [] | Some b \<Rightarrow> [b])
                                @ (case r4 of None \<Rightarrow> [] | Some b \<Rightarrow> [b]))))))"

definition summarizeTileE ::
  "(string \<rightharpoonup> material) \<Rightarrow> (string \<rightharpoonup> reaction) \<Rightarrow> rawTile \<Rightarrow> jsError + string" where
  "summarizeTileE M ix tile =
     (let bs = bits tile;
          ts = trendBits tile;
          headS = (if bs \<noteq> [] then join '', '' bs else ''stable'')
                  @ (if ts \<noteq> [] then ''; '' @ join '', '' ts else '''')
      in (case becauseBitsE M ix tile of
            Inl err \<Rightarrow> Inl err
          | Inr bb \<Rightarrow>
              let becauseText = (if bb \<noteq> [] then '' Because: '' @ join ''; '' bb @ ''.'' else '''');
                  sp = speciesPairs M tile;
                  speciesText = (if sp \<noteq> [] then '' Notable species: '' @ join '', '' sp @ ''.''
                                 else '''')
              in Inr (''This tile is '' @ headS @ ''.'' @ becauseText @ speciesText)))"

text \<open>
  \<^verbatim>\<open>describeReactionEntry\<close>: an unknown reaction id returns \<^verbatim>\<open>null\<close> before any product is
  read. For a known reaction, \<^verbatim>\<open>actorPhrase\<close> and \<^verbatim>\<open>describeHeat\<close> read no product, and then
  the loop of \<^verbatim>\<open>describeGas\<close> reads \<^verbatim>\<open>p.id\<close> of every product
  (\<^verbatim>\<open>rx.phases?.[p.id] || materialRegistry.get(p.id)?.phaseSTP\<close>), so it raises on any
  \<^verbatim>\<open>null\<close>; past the loop no element is \<^verbatim>\<open>null\<close>, and the rest is \<open>describeReactionEntry\<close> on
  the same list.
\<close>

definition describeReactionEntryE ::
  "(string \<rightharpoonup> material) \<Rightarrow> (string \<rightharpoonup> reaction) \<Rightarrow> rawEntry \<Rightarrow> rawTile option \<Rightarrow>
   jsError + string option" where
  "describeReactionEntryE M ix e tileRef =
     (case ix (e_id e) of
        None \<Rightarrow> Inr None
      | Some rx \<Rightarrow>
          (case eachP (orEmpty (products e)) of
             Inl err \<Rightarrow> Inl err
           | Inr ps \<Rightarrow>
               Inr (describeReactionEntry M ix
                      \<lparr>e_id = e_id e, extent = extent e, limiter = limiter e, fizz = fizz e,
                       heat = heat e,
                       products = (case products e of None \<Rightarrow> None | Some _ \<Rightarrow> Some ps)\<rparr>
                      tileRef)))"


text \<open>
  The loops of \<^verbatim>\<open>buildProductionInsights\<close>, with the guard \<^verbatim>\<open>!prod\<close> that skips a \<^verbatim>\<open>null\<close>
  product.
\<close>

fun productLoopE ::
  "rawEntry \<Rightarrow> reaction \<Rightarrow> product option list \<Rightarrow>
   (string \<times> (rawEntry \<times> reaction \<times> real) list) list \<Rightarrow>
   (string \<times> (rawEntry \<times> reaction \<times> real) list) list" where
  "productLoopE e rx [] productions = productions"
| "productLoopE e rx (None # ps) productions = productLoopE e rx ps productions"
| "productLoopE e rx (Some p # ps) productions =
     (if orZero (qty p) \<le> 0 then productLoopE e rx ps productions
      else productLoopE e rx ps (pushSource (p_id p) (e, rx, orZero (qty p)) productions))"

fun productionLoopE ::
  "(string \<rightharpoonup> reaction) \<Rightarrow> rawEntry option list \<Rightarrow>
   (string \<times> (rawEntry \<times> reaction \<times> real) list) list \<Rightarrow>
   (string \<times> (rawEntry \<times> reaction \<times> real) list) list" where
  "productionLoopE ix [] productions = productions"
| "productionLoopE ix (None # es) productions = productionLoopE ix es productions"
| "productionLoopE ix (Some e # es) productions =
     (if orZero (extent e) \<le> 0 then productionLoopE ix es productions
      else
        (case ix (e_id e) of
           None \<Rightarrow> productionLoopE ix es productions
         | Some rx \<Rightarrow> productionLoopE ix es (productLoopE e rx (orEmpty (products e)) productions)))"

definition buildProductionInsightsE ::
  "(string \<rightharpoonup> material) \<Rightarrow> (string \<rightharpoonup> reaction) \<Rightarrow> rawTile \<Rightarrow> string list" where
  "buildProductionInsightsE M ix tile =
     List.map_filter (productionLine M) (productionLoopE ix (orEmpty (activity tile)) [])"

text \<open>
  The loop of \<^verbatim>\<open>narrateTile\<close> over \<^verbatim>\<open>acts\<close>, which stops at the first sentence that raises.
\<close>

fun describeEach ::
  "(string \<rightharpoonup> material) \<Rightarrow> (string \<rightharpoonup> reaction) \<Rightarrow> rawTile \<Rightarrow> rawEntry list \<Rightarrow>
   jsError + string list" where
  "describeEach M ix tile [] = Inr []"
| "describeEach M ix tile (a # as) =
     (case describeReactionEntryE M ix a (Some tile) of
        Inl err \<Rightarrow> Inl err
      | Inr d \<Rightarrow>
          (case describeEach M ix tile as of
             Inl err \<Rightarrow> Inl err
           | Inr ds \<Rightarrow> Inr ((case d of None \<Rightarrow> [] | Some l \<Rightarrow> [l]) @ ds)))"

definition narrateTileE ::
  "(string \<rightharpoonup> material) \<Rightarrow> (string \<rightharpoonup> reaction) \<Rightarrow> rawTile \<Rightarrow> jsError + string list" where
  "narrateTileE M ix tile =
     (case summarizeTileE M ix tile of
        Inl err \<Rightarrow> Inl err
      | Inr summary \<Rightarrow>
          (case describeEach M ix tile (acts tile) of
             Inl err \<Rightarrow> Inl err
           | Inr ds \<Rightarrow>
               let productionLines = buildProductionInsightsE M ix tile;
                   lines2 = [summary] @ ds @ productionLines
               in if acts tile = [] \<and> productionLines = []
                  then Inr (lines2 @ [''No active reactions detected.''])
                  else Inr lines2))"

text \<open>An entry and a tile without \<^verbatim>\<open>null\<close> products, as a raw entry and a raw tile.\<close>

definition rawEntryOf :: "entry \<Rightarrow> rawEntry" where
  "rawEntryOf e =
     \<lparr>e_id = e_id e, extent = extent e, limiter = limiter e, fizz = fizz e, heat = heat e,
      products = (case products e of None \<Rightarrow> None | Some ps \<Rightarrow> Some (map Some ps))\<rparr>"

definition rawTileOf :: "tile \<Rightarrow> rawTile" where
  "rawTileOf tile =
     \<lparr>temp = temp tile, pH = pH tile, moisture = moisture tile, pressure = pressure tile,
      species = species tile, gas = gas tile, history = history tile,
      activity = (case activity tile of None \<Rightarrow> None
                  | Some es \<Rightarrow> Some (map (map_option rawEntryOf) es)),
      meta = meta tile\<rparr>"

text \<open>
  A sample as the store writes it: time, temperature and pressure, and neither pH nor
  the gas sum.
\<close>

definition storeSample :: "sample \<Rightarrow> bool" where
  "storeSample s = (s_temp s \<noteq> None \<and> s_pressure s \<noteq> None \<and> s_pH s = None \<and> s_gasSum s = None)"

declare showNat.simps [simp del]
declare replaceSuffixes.simps [simp del]

section \<open>Properties\<close>

subsection \<open>The window of a trend\<close>

lemma lastN_Some:
  "2 \<le> length hs \<Longrightarrow> lastN (Some hs) 3 = Some (drop (length hs - min 3 (length hs)) hs)"
  by (simp add: lastN_def Let_def)

lemma lastN_short: "length hs < 2 \<Longrightarrow> lastN (Some hs) n = None"
  by (simp add: lastN_def)

lemma window_length:
  "2 \<le> length hs \<Longrightarrow> 2 \<le> length (drop (length hs - min 3 (length hs)) hs)"
  by (simp add: min_def)

lemma window_hd_last:
  assumes "2 \<le> length w"
  shows "w ! 0 = hd w" and "w ! (length w - 1) = last w"
  using assms by (cases w; simp add: last_conv_nth)+

lemma window_subset:
  assumes "2 \<le> length hs" and "w = drop (length hs - min 3 (length hs)) hs"
  shows "hd w \<in> set hs" and "last w \<in> set hs"
proof -
  have "2 \<le> length w" unfolding assms(2) using assms(1) by (rule window_length)
  then have "w \<noteq> []" by auto
  then have "hd w \<in> set w" "last w \<in> set w" by simp_all
  then show "hd w \<in> set hs" "last w \<in> set hs"
    unfolding assms(2) by (auto dest: in_set_dropD)
qed

lemma trendOf_window: "trendOf (Some hs) field eps = trend_spec hs field eps"
proof (cases "length hs < 2")
  case True
  then show ?thesis
    by (simp add: trendOf_def trend_spec_def lastN_short Let_def)
next
  case False
  then have len: "2 \<le> length hs" by simp
  define w where "w = drop (length hs - min 3 (length hs)) hs"
  have wl: "2 \<le> length w"
    unfolding w_def using len by (rule window_length)
  have l: "lastN (Some hs) 3 = Some w"
    unfolding w_def using len by (rule lastN_Some)
  have nl: "\<not> length w < 2" using wl by simp
  show ?thesis
    unfolding trendOf_def trend_spec_def l w_def[symmetric]
    using False nl window_hd_last[OF wl] by (simp add: Let_def)
qed

lemma trendLabelPH_window:
  assumes "2 \<le> length hs" and "w = drop (length hs - min 3 (length hs)) hs"
  shows "trendLabelPH (Some hs) =
    (case (s_pH (hd w), s_pH (last w)) of
       (Some f, Some l) \<Rightarrow>
         if \<bar>l - f\<bar> \<ge> 0.02
         then Some (if 6.8 < l \<and> l < 7.2 then ''neutralizing''
                    else if l - f > 0 then ''becoming more basic''
                    else ''becoming more acidic'')
         else None
     | _ \<Rightarrow> None)"
proof -
  have wl: "2 \<le> length w"
    unfolding assms(2) using assms(1) by (rule window_length)
  have l: "lastN (Some hs) 3 = Some w"
    unfolding assms(2) using assms(1) by (rule lastN_Some)
  have nl: "\<not> length w < 2" using wl by simp
  show ?thesis
    unfolding trendLabelPH_def l
    using nl window_hd_last[OF wl]
    by (simp add: Let_def split: option.splits)
qed

subsection \<open>The trend of a field\<close>

text \<open>
  Claim C2. For every history, field and epsilon, \<open>trendOf\<close> is the trend of the
  specification: it works on the last \<open>min 3 (length hs)\<close> samples, is flat for fewer than
  two samples (and for a missing history) or when the elapsed seconds are not positive,
  and otherwise compares the slope, with a missing field value read as \<open>0\<close>, against
  \<open>eps\<close> and \<open>- eps\<close>.
\<close>

theorem trendOf_refines_spec:
  "trendOf None field eps = ''flat'' \<and> trendOf (Some hs) field eps = trend_spec hs field eps"
  by (simp add: trendOf_window) (simp add: trendOf_def lastN_def)

subsection \<open>The pH trend clause\<close>

text \<open>
  Claim C5, as the source has it. On a history of at least two samples with the window
  \<open>w\<close> of its last \<open>min 3 (length hs)\<close> samples: when the first and the last sample of the
  window both define pH, a clause is emitted if and only if the net drift
  \<open>\<bar>l - f\<bar>\<close> is at least \<open>0.02\<close> (a drift of exactly \<open>0.02\<close> emits one); the clause is
  ``neutralizing'' whenever the last pH lies strictly between \<open>6.8\<close> and \<open>7.2\<close>, whatever
  the sign of the drift, otherwise ``becoming more basic'' for a positive and ``becoming
  more acidic'' for a negative drift; when pH is missing at either end, no clause is
  emitted.
\<close>

theorem trendLabelPH_window_rule:
  assumes "2 \<le> length hs" and "w = drop (length hs - min 3 (length hs)) hs"
  shows "trendLabelPH (Some hs) =
    (case (s_pH (hd w), s_pH (last w)) of
       (Some f, Some l) \<Rightarrow>
         if \<bar>l - f\<bar> \<ge> 0.02
         then Some (if 6.8 < l \<and> l < 7.2 then ''neutralizing''
                    else if l - f > 0 then ''becoming more basic''
                    else ''becoming more acidic'')
         else None
     | _ \<Rightarrow> None)"
  using assms by (rule trendLabelPH_window)

text \<open>
  A history of four samples whose window starts at pH \<open>7.5\<close> and ends at pH \<open>7\<close>: the
  drift is negative and the clause is ``neutralizing''.
\<close>

theorem trendLabelPH_window_rule_witness:
  "trendLabelPH (Some [\<lparr>s_t = 0, s_temp = Some 20, s_pressure = Some 1, s_pH = Some 9, s_gasSum = None\<rparr>,
                       \<lparr>s_t = 1000, s_temp = Some 20, s_pressure = Some 1, s_pH = Some 7.5, s_gasSum = None\<rparr>,
                       \<lparr>s_t = 2000, s_temp = Some 20, s_pressure = Some 1, s_pH = None, s_gasSum = None\<rparr>,
                       \<lparr>s_t = 3000, s_temp = Some 20, s_pressure = Some 1, s_pH = Some 7, s_gasSum = None\<rparr>])
   = Some ''neutralizing''"
  using trendLabelPH_window_rule
    [of "[\<lparr>s_t = 0, s_temp = Some 20, s_pressure = Some 1, s_pH = Some 9, s_gasSum = None\<rparr>,
          \<lparr>s_t = 1000, s_temp = Some 20, s_pressure = Some 1, s_pH = Some 7.5, s_gasSum = None\<rparr>,
          \<lparr>s_t = 2000, s_temp = Some 20, s_pressure = Some 1, s_pH = None, s_gasSum = None\<rparr>,
          \<lparr>s_t = 3000, s_temp = Some 20, s_pressure = Some 1, s_pH = Some 7, s_gasSum = None\<rparr>]"
        "[\<lparr>s_t = 1000, s_temp = Some 20, s_pressure = Some 1, s_pH = Some 7.5, s_gasSum = None\<rparr>,
          \<lparr>s_t = 2000, s_temp = Some 20, s_pressure = Some 1, s_pH = None, s_gasSum = None\<rparr>,
          \<lparr>s_t = 3000, s_temp = Some 20, s_pressure = Some 1, s_pH = Some 7, s_gasSum = None\<rparr>]"]
  by simp

text \<open>
  The claim as stated asks for a drift that exceeds \<open>0.02\<close>. From pH \<open>0\<close> to pH \<open>0.02\<close> the
  drift is \<open>0.02\<close>, which does not exceed \<open>0.02\<close>, and the clause is emitted all the same.
\<close>

theorem trendLabelPH_threshold_counterexample:
  "trendLabelPH (Some [\<lparr>s_t = 0, s_temp = Some 20, s_pressure = Some 1, s_pH = Some 0, s_gasSum = None\<rparr>,
                       \<lparr>s_t = 1000, s_temp = Some 20, s_pressure = Some 1, s_pH = Some 0.02, s_gasSum = None\<rparr>])
     = Some ''becoming more basic''
   \<and> \<not> (\<bar>0.02 - 0\<bar> > (0.02::real))"
  by (simp add: trendLabelPH_def lastN_def)

subsection \<open>The history store\<close>

lemma history_ensure: "orEmpty (history (ensureHistoryBuffer tile)) = orEmpty (history tile)"
  by (simp add: ensureHistoryBuffer_def)

lemma list_all_dropWhile: "list_all P xs \<Longrightarrow> list_all P (dropWhile Q xs)"
  by (induction xs) auto

lemma list_all_tl: "list_all P xs \<Longrightarrow> list_all P (tl xs)"
  by (cases xs) auto

lemma sorted_map_dropWhile: "sorted (map f xs) \<Longrightarrow> sorted (map f (dropWhile Q xs))"
  by (induction xs) auto

lemma sorted_map_tl: "sorted (map f xs) \<Longrightarrow> sorted (map f (tl xs))"
  by (cases xs) auto

lemma sorted_map_snoc:
  "sorted (map f xs) \<Longrightarrow> list_all (\<lambda>x. f x \<le> f y) xs \<Longrightarrow> sorted (map f (xs @ [y]))"
  by (simp add: sorted_append list_all_iff)

text \<open>Expiry from the front of an ascending buffer leaves no expired sample behind.\<close>

lemma expired_dropped:
  "sorted (map f xs) \<Longrightarrow> list_all (\<lambda>x. (c::real) \<le> f x) (dropWhile (\<lambda>x. f x < c) xs)"
  by (induction xs) (auto simp: list_all_iff)

lemma recordTile_throttled:
  "throttled now tile \<Longrightarrow> orEmpty (history (recordTile now tile)) = orEmpty (history tile)"
  by (simp add: recordTile_def Let_def history_ensure)

lemma recordTile_sampled:
  "\<not> throttled now tile \<Longrightarrow>
   orEmpty (history (recordTile now tile)) =
     (let h1 = orEmpty (history tile)
                @ [\<lparr>s_t = now, s_temp = Some (temp tile), s_pressure = Some (orZero (pressure tile)),
                    s_pH = None, s_gasSum = None\<rparr>];
          h2 = dropWhile (\<lambda>s. s_t s < now - HISTORY_DURATION_MS) h1
      in if length h2 > 200 then tl h2 else h2)"
  by (simp add: recordTile_def Let_def history_ensure)

lemma history_recordTile:
  "history (recordTile now tile) = Some (orEmpty (history (recordTile now tile)))"
  by (simp add: recordTile_def Let_def ensureHistoryBuffer_def)

lemma recordTile_length:
  assumes "length (orEmpty (history tile)) \<le> 200"
  shows "length (orEmpty (history (recordTile now tile))) \<le> 200"
proof (cases "throttled now tile")
  case True
  then show ?thesis using assms by (simp add: recordTile_throttled)
next
  case False
  define h1 where "h1 = orEmpty (history tile)
      @ [\<lparr>s_t = now, s_temp = Some (temp tile), s_pressure = Some (orZero (pressure tile)),
          s_pH = None, s_gasSum = None\<rparr>]"
  define h2 where "h2 = dropWhile (\<lambda>s. s_t s < now - HISTORY_DURATION_MS) h1"
  have h: "orEmpty (history (recordTile now tile)) = (if length h2 > 200 then tl h2 else h2)"
    by (simp add: recordTile_sampled[OF False] Let_def h2_def h1_def)
  have "length h1 \<le> 201" using assms by (simp add: h1_def)
  moreover have "length h2 \<le> length h1"
    unfolding h2_def by (rule length_dropWhile_le)
  ultimately show ?thesis
    unfolding h by auto
qed

lemma recordTile_ascending:
  assumes "sorted (map s_t (orEmpty (history tile)))"
    and "list_all (\<lambda>s. s_t s \<le> now) (orEmpty (history tile))"
  shows "sorted (map s_t (orEmpty (history (recordTile now tile))))
         \<and> list_all (\<lambda>s. s_t s \<le> now) (orEmpty (history (recordTile now tile)))"
proof (cases "throttled now tile")
  case True
  then show ?thesis using assms by (simp add: recordTile_throttled)
next
  case False
  define new where "new = \<lparr>s_t = now, s_temp = Some (temp tile),
    s_pressure = Some (orZero (pressure tile)), s_pH = None, s_gasSum = None\<rparr>"
  define h1 where "h1 = orEmpty (history tile) @ [new]"
  define h2 where "h2 = dropWhile (\<lambda>s. s_t s < now - HISTORY_DURATION_MS) h1"
  define h3 where "h3 = (if length h2 > 200 then tl h2 else h2)"
  have h: "orEmpty (history (recordTile now tile)) = h3"
    by (simp add: recordTile_sampled[OF False] Let_def h3_def h2_def h1_def new_def)
  have s1: "sorted (map s_t h1)"
    unfolding h1_def using assms
    by (intro sorted_map_snoc) (simp_all add: new_def)
  then have "sorted (map s_t h2)"
    unfolding h2_def by (rule sorted_map_dropWhile)
  then have s3: "sorted (map s_t h3)"
    by (simp add: h3_def sorted_map_tl)
  have "list_all (\<lambda>s. s_t s \<le> now) h1"
    using assms(2) by (simp add: h1_def new_def)
  then have "list_all (\<lambda>s. s_t s \<le> now) h2"
    unfolding h2_def by (rule list_all_dropWhile)
  then have a3: "list_all (\<lambda>s. s_t s \<le> now) h3"
    by (simp add: h3_def list_all_tl)
  show ?thesis
    unfolding h using s3 a3 by simp
qed

lemma recordTile_retained:
  assumes "sorted (map s_t (orEmpty (history tile)))" and nt: "\<not> throttled now tile"
  shows "list_all (\<lambda>s. now - HISTORY_DURATION_MS \<le> s_t s) (orEmpty (history (recordTile now tile)))"
proof -
  define new where "new = \<lparr>s_t = now, s_temp = Some (temp tile),
    s_pressure = Some (orZero (pressure tile)), s_pH = None, s_gasSum = None\<rparr>"
  define h1 where "h1 = orEmpty (history tile) @ [new]"
  define h2 where "h2 = dropWhile (\<lambda>s. s_t s < now - HISTORY_DURATION_MS) h1"
  have h: "orEmpty (history (recordTile now tile)) = (if length h2 > 200 then tl h2 else h2)"
    by (simp add: recordTile_sampled[OF nt] Let_def h2_def h1_def new_def)
  have keep: "\<not> s_t new < now - HISTORY_DURATION_MS"
    by (simp add: new_def HISTORY_DURATION_MS_def)
  have "h2 = dropWhile (\<lambda>s. s_t s < now - HISTORY_DURATION_MS) (orEmpty (history tile)) @ [new]"
    unfolding h2_def h1_def using keep by (simp add: dropWhile_append3)
  moreover have "list_all (\<lambda>s. now - HISTORY_DURATION_MS \<le> s_t s)
      (dropWhile (\<lambda>s. s_t s < now - HISTORY_DURATION_MS) (orEmpty (history tile)))"
    using assms(1) by (rule expired_dropped)
  ultimately have "list_all (\<lambda>s. now - HISTORY_DURATION_MS \<le> s_t s) h2"
    using keep by simp
  then show ?thesis
    unfolding h by (simp add: list_all_tl)
qed

lemma recordTile_appends:
  assumes nt: "\<not> throttled now tile"
  shows "orEmpty (history (recordTile now tile)) \<noteq> []
         \<and> s_t (last (orEmpty (history (recordTile now tile)))) = now"
proof -
  define new where "new = \<lparr>s_t = now, s_temp = Some (temp tile),
    s_pressure = Some (orZero (pressure tile)), s_pH = None, s_gasSum = None\<rparr>"
  define h1 where "h1 = orEmpty (history tile) @ [new]"
  define h2 where "h2 = dropWhile (\<lambda>s. s_t s < now - HISTORY_DURATION_MS) h1"
  have h: "orEmpty (history (recordTile now tile)) = (if length h2 > 200 then tl h2 else h2)"
    by (simp add: recordTile_sampled[OF nt] Let_def h2_def h1_def new_def)
  have keep: "\<not> s_t new < now - HISTORY_DURATION_MS"
    by (simp add: new_def HISTORY_DURATION_MS_def)
  have "h2 = dropWhile (\<lambda>s. s_t s < now - HISTORY_DURATION_MS) (orEmpty (history tile)) @ [new]"
    unfolding h2_def h1_def using keep by (simp add: dropWhile_append3)
  then have ne: "h2 \<noteq> []" and l: "last h2 = new" by simp_all
  have "length h2 > 200 \<Longrightarrow> tl h2 \<noteq> [] \<and> last (tl h2) = new"
    using l by (cases h2) (auto split: if_splits)
  then show ?thesis
    unfolding h using ne l by (auto simp: new_def)
qed

text \<open>
  Claim C9, as the source has it. For every subscribed tile and every call of
  \<open>recordSubscribedHistories now\<close>: a buffer of at most 200 samples has at most 200 samples
  after the call (so it always has, from the empty buffer on); a buffer in ascending order
  of time with no sample later than \<open>now\<close>, as when successive calls use nondecreasing
  times, is in ascending order after the call, again with no sample later than \<open>now\<close>; a
  throttled tile keeps its samples, and a tile that is not throttled gets the new sample
  of time \<open>now\<close> at the end of its buffer; and when the call appends to a buffer that was in
  ascending order, every sample retained after the call has a time of at least
  \<open>now - HISTORY_DURATION_MS\<close>.
\<close>

theorem recordSubscribedHistories_invariants:
  assumes "i < length subscribers"
  shows "(length (orEmpty (history (subscribers ! i))) \<le> 200
            \<longrightarrow> length (orEmpty (history (recordSubscribedHistories now subscribers ! i))) \<le> 200)
       \<and> (sorted (map s_t (orEmpty (history (subscribers ! i))))
            \<and> list_all (\<lambda>s. s_t s \<le> now) (orEmpty (history (subscribers ! i)))
            \<longrightarrow> sorted (map s_t (orEmpty (history (recordSubscribedHistories now subscribers ! i))))
              \<and> list_all (\<lambda>s. s_t s \<le> now)
                   (orEmpty (history (recordSubscribedHistories now subscribers ! i))))
       \<and> (if throttled now (subscribers ! i)
          then orEmpty (history (recordSubscribedHistories now subscribers ! i))
                 = orEmpty (history (subscribers ! i))
          else orEmpty (history (recordSubscribedHistories now subscribers ! i)) \<noteq> []
               \<and> s_t (last (orEmpty (history (recordSubscribedHistories now subscribers ! i)))) = now
               \<and> (sorted (map s_t (orEmpty (history (subscribers ! i))))
                    \<longrightarrow> list_all (\<lambda>s. now - HISTORY_DURATION_MS \<le> s_t s)
                          (orEmpty (history (recordSubscribedHistories now subscribers ! i)))))"
proof -
  have r: "recordSubscribedHistories now subscribers ! i = recordTile now (subscribers ! i)"
    using assms by (auto simp: recordSubscribedHistories_def)
  show ?thesis
    unfolding r
    using recordTile_length[of "subscribers ! i" now] recordTile_ascending[of "subscribers ! i" now]
      recordTile_retained[of "subscribers ! i" now]
      recordTile_appends[of now "subscribers ! i"] recordTile_throttled[of now "subscribers ! i"]
    by simp
qed

text \<open>
  One subscribed tile with samples at \<open>0\<close> and \<open>5000\<close>, recorded at \<open>12000\<close>: the sample of
  time \<open>0\<close> expires and the buffer holds the times \<open>5000\<close> and \<open>12000\<close>.
\<close>

theorem recordSubscribedHistories_invariants_witness:
  "sorted (map s_t (orEmpty (history
          \<lparr>temp = 25, pH = 7, moisture = 0.5, pressure = Some 1, species = None, gas = None,
            history = Some [\<lparr>s_t = 0, s_temp = Some 24, s_pressure = Some 1, s_pH = None, s_gasSum = None\<rparr>,
                            \<lparr>s_t = 5000, s_temp = Some 25, s_pressure = Some 1, s_pH = None, s_gasSum = None\<rparr>],
            activity = None, meta = Some \<lparr>lastSampleAt = Some 5000\<rparr>\<rparr>)))
   \<and> \<not> throttled 12000
          \<lparr>temp = 25, pH = 7, moisture = 0.5, pressure = Some 1, species = None, gas = None,
            history = Some [\<lparr>s_t = 0, s_temp = Some 24, s_pressure = Some 1, s_pH = None, s_gasSum = None\<rparr>,
                            \<lparr>s_t = 5000, s_temp = Some 25, s_pressure = Some 1, s_pH = None, s_gasSum = None\<rparr>],
            activity = None, meta = Some \<lparr>lastSampleAt = Some 5000\<rparr>\<rparr>
   \<and> map s_t (orEmpty (history
        (recordSubscribedHistories 12000
          [\<lparr>temp = 25, pH = 7, moisture = 0.5, pressure = Some 1, species = None, gas = None,
            history = Some [\<lparr>s_t = 0, s_temp = Some 24, s_pressure = Some 1, s_pH = None, s_gasSum = None\<rparr>,
                            \<lparr>s_t = 5000, s_temp = Some 25, s_pressure = Some 1, s_pH = None, s_gasSum = None\<rparr>],
            activity = None, meta = Some \<lparr>lastSampleAt = Some 5000\<rparr>\<rparr>] ! 0)))
       = [5000, 12000]
   \<and> list_all (\<lambda>s. 12000 - HISTORY_DURATION_MS \<le> s_t s)
        (orEmpty (history
          (recordSubscribedHistories 12000
            [\<lparr>temp = 25, pH = 7, moisture = 0.5, pressure = Some 1, species = None, gas = None,
            history = Some [\<lparr>s_t = 0, s_temp = Some 24, s_pressure = Some 1, s_pH = None, s_gasSum = None\<rparr>,
                            \<lparr>s_t = 5000, s_temp = Some 25, s_pressure = Some 1, s_pH = None, s_gasSum = None\<rparr>],
            activity = None, meta = Some \<lparr>lastSampleAt = Some 5000\<rparr>\<rparr>] ! 0)))"
  using recordSubscribedHistories_invariants
    [of 0
        "[\<lparr>temp = 25, pH = 7, moisture = 0.5, pressure = Some 1, species = None, gas = None,
            history = Some [\<lparr>s_t = 0, s_temp = Some 24, s_pressure = Some 1, s_pH = None, s_gasSum = None\<rparr>,
                            \<lparr>s_t = 5000, s_temp = Some 25, s_pressure = Some 1, s_pH = None, s_gasSum = None\<rparr>],
            activity = None, meta = Some \<lparr>lastSampleAt = Some 5000\<rparr>\<rparr>]"
        12000]
  by (simp add: recordSubscribedHistories_def recordTile_def throttled_def
        ensureHistoryBuffer_def HISTORY_DURATION_MS_def HISTORY_SAMPLE_MS_def Let_def)

text \<open>
  The claim as stated bounds the retained samples at every appending call. A tile is
  subscribed and recorded at \<open>5000\<close>, unsubscribed and subscribed again, and recorded at
  \<open>1500\<close> and at \<open>15000\<close>: the buffer then holds the times \<open>5000\<close>, \<open>1500\<close> and \<open>15000\<close>. The
  expiry stops at the first sample, which is not older than \<open>15000 - 10000\<close>, and the sample
  of time \<open>1500\<close> behind it is retained.
\<close>

theorem recordSubscribedHistories_unordered_counterexample:
  "map s_t (orEmpty (history (hd
     (recordSubscribedHistories 15000
       (recordSubscribedHistories 1500
         [subscribeHistory (unsubscribeHistory False (hd
            (recordSubscribedHistories 5000
              [subscribeHistory
                 \<lparr>temp = 25, pH = 7, moisture = 0.5, pressure = Some 1, species = None, gas = None,
                  history = None, activity = None, meta = None\<rparr>])))])))))
     = [5000, 1500, 15000]
   \<and> \<not> (15000 - HISTORY_DURATION_MS \<le> 1500)"
  by (simp add: recordSubscribedHistories_def recordTile_def throttled_def subscribeHistory_def
        unsubscribeHistory_def ensureHistoryBuffer_def HISTORY_DURATION_MS_def
        HISTORY_SAMPLE_MS_def Let_def)

subsection \<open>Trends over the samples of the store\<close>

lemma recordTile_storeSample:
  "list_all storeSample (orEmpty (history tile)) \<Longrightarrow>
   list_all storeSample (orEmpty (history (recordTile now tile)))"
  by (cases "throttled now tile")
     (simp_all add: recordTile_throttled recordTile_sampled Let_def list_all_dropWhile list_all_tl
        storeSample_def)

lemma trendLabelPH_storeSample:
  assumes "list_all storeSample hs"
  shows "trendLabelPH (Some hs) = None"
proof (cases "length hs < 2")
  case True
  then show ?thesis by (simp add: trendLabelPH_def lastN_short)
next
  case False
  then have len: "2 \<le> length hs" by simp
  define w where "w = drop (length hs - min 3 (length hs)) hs"
  have "s_pH (hd w) = None"
    using assms window_subset(1)[OF len w_def] by (simp add: list_all_iff storeSample_def)
  then show ?thesis
    using trendLabelPH_window[OF len w_def] by simp
qed

lemma trendLabelGas_storeSample:
  assumes "list_all storeSample hs"
  shows "trendLabelGas (Some hs) = None"
proof -
  have "trendOf (Some hs) ''gasSum'' 0.01 = ''flat''"
  proof (cases "length hs < 2")
    case True
    then show ?thesis by (simp add: trendOf_def lastN_short)
  next
    case False
    then have len: "2 \<le> length hs" by simp
    define w where "w = drop (length hs - min 3 (length hs)) hs"
    have "s_gasSum (hd w) = None" "s_gasSum (last w) = None"
      using assms window_subset[OF len w_def] by (simp_all add: list_all_iff storeSample_def)
    then have "getField (hd w) ''gasSum'' = None" "getField (last w) ''gasSum'' = None"
      by (simp_all add: getField_def)
    then show ?thesis
      by (simp add: trendOf_window trend_spec_def Let_def w_def[symmetric])
  qed
  then show ?thesis by (simp add: trendLabelGas_def)
qed

text \<open>
  Claim C10. Let the history of every subscribed tile hold samples of the store only
  (time, temperature and pressure, neither pH nor gas sum; a tile without a history is
  such a tile). After \<open>recordSubscribedHistories now\<close> this is still so, hence every sample
  the call appends carries neither pH nor gas sum; \<open>trendLabelPH\<close> and \<open>trendLabelGas\<close>
  return nothing on every such history, and the trend clauses of the summary are at most
  the pressure clause.
\<close>

theorem store_samples_give_no_pH_gas_trend:
  assumes "list_all (\<lambda>tile. list_all storeSample (orEmpty (history tile))) subscribers"
  shows "list_all
           (\<lambda>tile. list_all storeSample (orEmpty (history tile))
                    \<and> trendLabelPH (history tile) = None
                    \<and> trendLabelGas (history tile) = None
                    \<and> trendBits tile = (case trendLabelPressure (history tile) of
                                           None \<Rightarrow> [] | Some p \<Rightarrow> [p]))
           (recordSubscribedHistories now subscribers)"
proof -
  have one: "list_all storeSample (orEmpty (history (recordTile now tile)))
             \<and> trendLabelPH (history (recordTile now tile)) = None
             \<and> trendLabelGas (history (recordTile now tile)) = None
             \<and> trendBits (recordTile now tile)
                 = (case trendLabelPressure (history (recordTile now tile)) of
                      None \<Rightarrow> [] | Some p \<Rightarrow> [p])"
    if "list_all storeSample (orEmpty (history tile))" for tile
  proof -
    have a: "list_all storeSample (orEmpty (history (recordTile now tile)))"
      using that by (rule recordTile_storeSample)
    have b: "trendLabelPH (history (recordTile now tile)) = None"
      using trendLabelPH_storeSample[OF a] history_recordTile[of now tile] by simp
    have c: "trendLabelGas (history (recordTile now tile)) = None"
      using trendLabelGas_storeSample[OF a] history_recordTile[of now tile] by simp
    show ?thesis
      using a b c by (simp add: trendBits_def List.map_filter_simps split: option.splits)
  qed
  have "recordSubscribedHistories now subscribers = map (recordTile now) subscribers"
    by (simp add: recordSubscribedHistories_def)
  then show ?thesis
    using assms by (induction subscribers) (simp_all add: one recordSubscribedHistories_def)
qed

text \<open>
  One subscribed tile with two samples of the store, recorded at \<open>2000\<close>: the buffer then
  holds three samples, and neither a pH clause nor a gas clause is produced.
\<close>

theorem store_samples_give_no_pH_gas_trend_witness:
  "list_all (\<lambda>tile. list_all storeSample (orEmpty (history tile)))
     [\<lparr>temp = 25, pH = 7, moisture = 0.5, pressure = Some 1, species = None, gas = None,
       history = Some [\<lparr>s_t = 0, s_temp = Some 24, s_pressure = Some 1, s_pH = None, s_gasSum = None\<rparr>,
                       \<lparr>s_t = 1000, s_temp = Some 25, s_pressure = Some 1, s_pH = None, s_gasSum = None\<rparr>],
       activity = None, meta = Some \<lparr>lastSampleAt = Some 1000\<rparr>\<rparr>]
   \<and> list_all (\<lambda>tile. trendLabelPH (history tile) = None \<and> trendLabelGas (history tile) = None)
        (recordSubscribedHistories 2000
          [\<lparr>temp = 25, pH = 7, moisture = 0.5, pressure = Some 1, species = None, gas = None,
            history = Some [\<lparr>s_t = 0, s_temp = Some 24, s_pressure = Some 1, s_pH = None, s_gasSum = None\<rparr>,
                            \<lparr>s_t = 1000, s_temp = Some 25, s_pressure = Some 1, s_pH = None, s_gasSum = None\<rparr>],
            activity = None, meta = Some \<lparr>lastSampleAt = Some 1000\<rparr>\<rparr>])
   \<and> map s_t (orEmpty (history (hd
        (recordSubscribedHistories 2000
          [\<lparr>temp = 25, pH = 7, moisture = 0.5, pressure = Some 1, species = None, gas = None,
            history = Some [\<lparr>s_t = 0, s_temp = Some 24, s_pressure = Some 1, s_pH = None, s_gasSum = None\<rparr>,
                            \<lparr>s_t = 1000, s_temp = Some 25, s_pressure = Some 1, s_pH = None, s_gasSum = None\<rparr>],
            activity = None, meta = Some \<lparr>lastSampleAt = Some 1000\<rparr>\<rparr>])))) = [0, 1000, 2000]"
  using store_samples_give_no_pH_gas_trend
    [of "[\<lparr>temp = 25, pH = 7, moisture = 0.5, pressure = Some 1, species = None, gas = None,
           history = Some [\<lparr>s_t = 0, s_temp = Some 24, s_pressure = Some 1, s_pH = None, s_gasSum = None\<rparr>,
                           \<lparr>s_t = 1000, s_temp = Some 25, s_pressure = Some 1, s_pH = None, s_gasSum = None\<rparr>],
           activity = None, meta = Some \<lparr>lastSampleAt = Some 1000\<rparr>\<rparr>]" 2000]
  by (simp add: storeSample_def recordSubscribedHistories_def recordTile_def throttled_def
        ensureHistoryBuffer_def HISTORY_DURATION_MS_def HISTORY_SAMPLE_MS_def Let_def)

subsection \<open>The causal selector\<close>

lemma firstMax_split:
  "\<exists>pre post. h # xs = pre @ firstMax h xs # post
     \<and> (\<forall>x\<in>set pre. score x < score (firstMax h xs))
     \<and> (\<forall>x\<in>set post. score x \<le> score (firstMax h xs))"
proof (induction xs arbitrary: h)
  case Nil
  show ?case by (rule exI[of _ "[]"]) simp
next
  case (Cons x xs)
  show ?case
  proof (cases "score x > score h")
    case True
    define r where "r = firstMax x xs"
    have fm: "firstMax h (x # xs) = r" using True by (simp add: r_def)
    from Cons.IH[of x] obtain pre post where
      s: "x # xs = pre @ r # post"
      and a: "\<forall>y\<in>set pre. score y < score r"
      and b: "\<forall>y\<in>set post. score y \<le> score r"
      unfolding r_def by blast
    have "x \<in> set (pre @ r # post)" using s by (metis list.set_intros(1))
    then have "score x \<le> score r" using a b by auto
    then have "score h < score r" using True by simp
    then have "h # x # xs = (h # pre) @ r # post
        \<and> (\<forall>y\<in>set (h # pre). score y < score r)
        \<and> (\<forall>y\<in>set post. score y \<le> score r)"
      using s a b by simp
    then show ?thesis unfolding fm by blast
  next
    case False
    define r where "r = firstMax h xs"
    have fm: "firstMax h (x # xs) = r" using False by (simp add: r_def)
    from Cons.IH[of h] obtain pre post where
      s: "h # xs = pre @ r # post"
      and a: "\<forall>y\<in>set pre. score y < score r"
      and b: "\<forall>y\<in>set post. score y \<le> score r"
      unfolding r_def by blast
    show ?thesis
    proof (cases pre)
      case Nil
      then have "r = h" and "xs = post" using s by simp_all
      then have "h # x # xs = [] @ r # (x # post)
          \<and> (\<forall>y\<in>set []. score y < score r)
          \<and> (\<forall>y\<in>set (x # post). score y \<le> score r)"
        using b False by auto
      then show ?thesis unfolding fm by blast
    next
      case (Cons p pre')
      then have hp: "p = h" and xs: "xs = pre' @ r # post" using s by simp_all
      have "score h < score r" using a Cons hp by simp
      then have "h # x # xs = (h # x # pre') @ r # post
          \<and> (\<forall>y\<in>set (h # x # pre'). score y < score r)
          \<and> (\<forall>y\<in>set post. score y \<le> score r)"
        using xs a b Cons False by auto
      then show ?thesis unfolding fm by blast
    qed
  qed
qed

lemma pickLoop_Some:
  "pickLoop ix predicate es (Some b, Some (score b)) =
     (Some (firstMax b (survivors ix predicate es)),
      Some (score (firstMax b (survivors ix predicate es))))"
proof (induction es arbitrary: b)
  case Nil
  show ?case by simp
next
  case (Cons x es)
  show ?case
  proof (cases x)
    case None
    then show ?thesis using Cons.IH by simp
  next
    case (Some e)
    show ?thesis
    proof (cases "ix (e_id e)")
      case None
      then show ?thesis using Cons.IH[of b] by (simp add: Some)
    next
      case (Some rx)
      have sc: "score (e, rx) = orZero (extent e)" by (simp add: score_def)
      show ?thesis
        using Cons.IH[of b] Cons.IH[of "(e, rx)"]
        by (simp add: \<open>x = Some e\<close> Some accepts_def sc Let_def split: option.splits)
    qed
  qed
qed

lemma pickLoop_None:
  "pickLoop ix predicate es (None, None) =
     (case survivors ix predicate es of
        [] \<Rightarrow> (None, None)
      | h # xs \<Rightarrow> (Some (firstMax h xs), Some (score (firstMax h xs))))"
proof (induction es)
  case Nil
  show ?case by simp
next
  case (Cons x es)
  show ?case
  proof (cases x)
    case None
    then show ?thesis using Cons.IH by simp
  next
    case (Some e)
    show ?thesis
    proof (cases "ix (e_id e)")
      case None
      then show ?thesis using Cons.IH by (simp add: Some)
    next
      case (Some rx)
      have sc: "score (e, rx) = orZero (extent e)" by (simp add: score_def)
      show ?thesis
        using Cons.IH pickLoop_Some[of ix predicate es "(e, rx)"]
        by (simp add: \<open>x = Some e\<close> Some accepts_def sc Let_def split: option.splits)
    qed
  qed
qed


lemma pickActivity_firstMax:
  "pickActivity ix tile predicate =
     (case survivors ix predicate (orEmpty (activity tile)) of
        [] \<Rightarrow> None
      | h # xs \<Rightarrow> Some (firstMax h xs))"
  by (simp add: pickActivity_def pickLoop_None split: list.splits)

text \<open>
  Claim C3. For every cell and every predicate, \<open>pickActivity\<close> returns nothing exactly
  when no candidate survives (the survivors leave out the \<^verbatim>\<open>null\<close> entries, the entries
  of extent at most \<open>0\<close>, the entries whose reaction id is not in the index and the entries
  that fail the predicate). Otherwise it returns a survivor such that every survivor
  before it in the activity list has a strictly smaller extent and every survivor behind
  it has an extent that is not greater: the first-encountered entry of greatest extent.
\<close>

theorem pickActivity_first_greatest:
  "(pickActivity ix tile predicate = None
      \<longleftrightarrow> survivors ix predicate (orEmpty (activity tile)) = [])
   \<and> (\<forall>hit. pickActivity ix tile predicate = Some hit \<longrightarrow>
        (\<exists>pre post. survivors ix predicate (orEmpty (activity tile)) = pre @ hit # post
           \<and> (\<forall>x\<in>set pre. score x < score hit)
           \<and> (\<forall>x\<in>set post. score x \<le> score hit)))"
proof (cases "survivors ix predicate (orEmpty (activity tile))")
  case Nil
  then show ?thesis by (simp add: pickActivity_firstMax)
next
  case (Cons h xs)
  then have p: "pickActivity ix tile predicate = Some (firstMax h xs)"
    by (simp add: pickActivity_firstMax)
  show ?thesis
    unfolding p Cons using firstMax_split[of h xs] by simp
qed

text \<open>
  An activity list with a \<^verbatim>\<open>null\<close>, a stale id of the greatest extent, an entry of extent
  \<open>0\<close> and two known entries of equal extent: the earlier of the two is selected.
\<close>

theorem pickActivity_first_greatest_witness:
  "pickActivity
     (rxIndex [\<lparr>rx_id = ''a'', equation = None, reactants = None, phases = None, effects = None, tags = None\<rparr>,
               \<lparr>rx_id = ''b'', equation = None, reactants = None, phases = None, effects = None, tags = None\<rparr>])
     \<lparr>temp = 25, pH = 7, moisture = 0.5, pressure = None, species = None, gas = None, history = None,
      activity = Some [None,
        Some \<lparr>e_id = ''zzz'', extent = Some 0.9, limiter = None, fizz = False, heat = False, products = None\<rparr>,
        Some \<lparr>e_id = ''a'', extent = Some 0, limiter = None, fizz = False, heat = False, products = None\<rparr>,
        Some \<lparr>e_id = ''a'', extent = Some 0.5, limiter = None, fizz = False, heat = False, products = None\<rparr>,
        Some \<lparr>e_id = ''b'', extent = Some 0.5, limiter = None, fizz = False, heat = False, products = None\<rparr>],
      meta = None\<rparr>
     None
   = Some (\<lparr>e_id = ''a'', extent = Some 0.5, limiter = None, fizz = False, heat = False, products = None\<rparr>,
           \<lparr>rx_id = ''a'', equation = None, reactants = None, phases = None, effects = None, tags = None\<rparr>)"
  using pickActivity_first_greatest
    [of "rxIndex [\<lparr>rx_id = ''a'', equation = None, reactants = None, phases = None, effects = None, tags = None\<rparr>,
                  \<lparr>rx_id = ''b'', equation = None, reactants = None, phases = None, effects = None, tags = None\<rparr>]"
        "\<lparr>temp = 25, pH = 7, moisture = 0.5, pressure = None, species = None, gas = None, history = None,
          activity = Some [None,
            Some \<lparr>e_id = ''zzz'', extent = Some 0.9, limiter = None, fizz = False, heat = False, products = None\<rparr>,
            Some \<lparr>e_id = ''a'', extent = Some 0, limiter = None, fizz = False, heat = False, products = None\<rparr>,
            Some \<lparr>e_id = ''a'', extent = Some 0.5, limiter = None, fizz = False, heat = False, products = None\<rparr>,
            Some \<lparr>e_id = ''b'', extent = Some 0.5, limiter = None, fizz = False, heat = False, products = None\<rparr>],
          meta = None\<rparr>"
        None]
  by (simp add: pickActivity_def rxIndex_def accepts_def score_def Let_def)

subsection \<open>The pressure predicate\<close>

text \<open>
  Claim C6, as the source has it. The predicate that \<open>becausePressure\<close> hands to the causal
  selector accepts an activity if and only if its reaction has a pressure-pulse effect,
  or the product list of the activity contains a gas-phase product, or a tag of the
  reaction contains \<^verbatim>\<open>gas_evolution\<close>; and \<open>becausePressure\<close> gives a clause exactly when a
  candidate survives under this predicate.
\<close>

theorem pressurePredicate_accepts:
  "(pressurePredicate M e rx \<longleftrightarrow>
      pressurePulse (orNoEffects (effects rx))
      \<or> (\<exists>p\<in>set (orEmpty (products e)). isGasProduct M (p_id p) rx)
      \<or> (\<exists>t\<in>set (orEmpty (tags rx)). str_includes t ''gas_evolution''))
   \<and> (becausePressure M ix tile \<noteq> None
        \<longleftrightarrow> survivors ix (Some (pressurePredicate M)) (orEmpty (activity tile)) \<noteq> [])"
  by (auto simp: pressurePredicate_def tag_def list_ex_iff Let_def becausePressure_def
        pickActivity_firstMax split: option.splits list.splits)

text \<open>
  A reaction with a pressure pulse, and an entry whose product \<^verbatim>\<open>H2_g\<close> is a gas by its
  name: both are accepted.
\<close>

theorem pressurePredicate_accepts_witness:
  "pressurePredicate (\<lambda>i. None)
     \<lparr>e_id = ''r'', extent = Some 0.5, limiter = None, fizz = False, heat = False,
      products = Some [\<lparr>p_id = ''H2_g'', qty = Some 1\<rparr>]\<rparr>
     \<lparr>rx_id = ''r'', equation = None, reactants = None, phases = None, effects = None, tags = None\<rparr>
   \<and> isGasProduct (\<lambda>i. None) ''H2_g''
        \<lparr>rx_id = ''r'', equation = None, reactants = None, phases = None, effects = None, tags = None\<rparr>"
  using pressurePredicate_accepts
    [of "\<lambda>i. None"
        "\<lparr>e_id = ''r'', extent = Some 0.5, limiter = None, fizz = False, heat = False,
          products = Some [\<lparr>p_id = ''H2_g'', qty = Some 1\<rparr>]\<rparr>"
        "\<lparr>rx_id = ''r'', equation = None, reactants = None, phases = None, effects = None, tags = None\<rparr>"]
  by (simp add: isGasProduct_def endsWith_def)

text \<open>
  The claim as stated admits the pressure pulse and the gas-phase product only. A
  reaction tagged \<^verbatim>\<open>gas_evolution\<close> with no pressure pulse, in an activity with no product,
  is accepted all the same.
\<close>

theorem pressurePredicate_tag_counterexample:
  "pressurePredicate (\<lambda>i. None)
     \<lparr>e_id = ''r'', extent = Some 0.5, limiter = None, fizz = False, heat = False, products = None\<rparr>
     \<lparr>rx_id = ''r'', equation = None, reactants = None, phases = None, effects = None,
      tags = Some [''gas_evolution'']\<rparr>
   \<and> \<not> (pressurePulse (orNoEffects (effects
            \<lparr>rx_id = ''r'', equation = None, reactants = None, phases = None, effects = None,
             tags = Some [''gas_evolution'']\<rparr>))
        \<or> list_ex (\<lambda>p. isGasProduct (\<lambda>i. None) (p_id p)
                     \<lparr>rx_id = ''r'', equation = None, reactants = None, phases = None, effects = None,
                      tags = Some [''gas_evolution'']\<rparr>)
             (orEmpty (products
                \<lparr>e_id = ''r'', extent = Some 0.5, limiter = None, fizz = False, heat = False,
                 products = None\<rparr>)))"
  by (simp add: pressurePredicate_def tag_def startsWith_def)

subsection \<open>The narration of a tile\<close>

text \<open>
  Claim C1. For the cell of temperature \<open>25\<close>, pH \<open>7.0\<close>, moisture \<open>0.5\<close>, pressure \<open>0\<close>,
  with empty gas and aqueous species maps, an empty activity list and an empty history,
  \<open>narrateTile\<close> returns the two lines below, whatever the registry and the reaction index.
\<close>

theorem narrateTile_scenario:
  "narrateTile M ix
     \<lparr>temp = 25, pH = 7.0, moisture = 0.5, pressure = Some 0, species = Some [], gas = Some [],
      history = Some [], activity = Some [], meta = m\<rparr>
   = [''This tile is temperate, near neutral.'', ''No active reactions detected.'']"
  by (simp add: narrateTile_def acts_def summarizeTile_def bits_def trendBits_def becauseBits_def
        speciesPairs_def buildProductionInsights_def tempWord_def pHWord_def trendLabelTemp_def
        trendLabelPressure_def trendLabelPH_def trendLabelGas_def trendOf_def lastN_def
        List.map_filter_simps Let_def)

subsection \<open>The sentence of a neutralization\<close>

text \<open>The definitions that evaluate a sentence on a given entry.\<close>

lemmas phrase_defs =
  describeReactionEntry_def actorPhrase_def describeHeat_def exoLevel_def describeGas_def
  describeProducts_def describeLimiter_def niceName_def hazardsFor_def hazardFlair_def phaseOf_def
  isGasProduct_def isSolidProduct_def endsWith_def startsWith_def tag_def colorWord_def showInt_def
  mathRound_def showNat.simps trim_def replaceSuffixes.simps isWhiteSpace_def isLineTerminator_def
  setAdd_def reactionLabel_def Let_def

lemma niceName_H2O_nonempty: "niceName M ''H2O'' \<noteq> []"
  by (simp add: niceName_def replaceSuffixes.simps trim_def isWhiteSpace_def split: option.splits)

lemma intensity_80: "showInt (mathRound (min 1 (orZero (Some 0.8)) * 100)) = ''80''"
  by (simp add: showInt_def mathRound_def showNat.simps)

lemma actorPhrase_neutralization:
  assumes "(a, ca) \<in> set (orEmpty (reactants rx))" and "M a = Some ma"
    and "corrosivity ma = Some ''acid'' \<or> ''acid'' \<in> set (orEmpty (hazardTags ma))"
    and "(b, cb) \<in> set (orEmpty (reactants rx))" and "M b = Some mb"
    and "corrosivity mb = Some ''base'' \<or> ''base'' \<in> set (orEmpty (hazardTags mb))"
  shows "actorPhrase M rx = ''The acid is neutralizing the base''"
proof -
  have "a \<in> set (map fst (orEmpty (reactants rx)))" "b \<in> set (map fst (orEmpty (reactants rx)))"
    using assms(1,4) by force+
  then have "list_ex (\<lambda>i. case M i of None \<Rightarrow> False
                | Some m \<Rightarrow> corrosivity m = Some ''acid'' \<or> ''acid'' \<in> set (orEmpty (hazardTags m)))
              (map fst (orEmpty (reactants rx)))"
     and "list_ex (\<lambda>i. case M i of None \<Rightarrow> False
                | Some m \<Rightarrow> corrosivity m = Some ''base'' \<or> ''base'' \<in> set (orEmpty (hazardTags m)))
              (map fst (orEmpty (reactants rx)))"
    unfolding list_ex_iff using assms(2,3,5,6) by force+
  then show ?thesis
    by (simp add: actorPhrase_def Let_def)
qed

lemma describeGas_none:
  assumes "\<not> tag rx ''gas_evolution''" and "\<not> emitGas fx"
    and "productGasLoop M rx (orEmpty prods) (None, 0) = (None, 0)"
    and "filter (\<lambda>(k, v). v > 0.05) (case tileRef of None \<Rightarrow> [] | Some t \<Rightarrow> orEmpty (gas t)) = []"
  shows "describeGas M rx fx prods tileRef = None"
  using assms by (simp add: describeGas_def Let_def)

text \<open>
  Claim C7, as the source has it. Let an activity entry reference a reaction of the index
  that has a reactant classified acid and a reactant classified base, with extent \<open>0.8\<close>,
  no limiter and the product list \<^verbatim>\<open>{H2O: 2.0}\<close>, where \<^verbatim>\<open>H2O\<close> is neither a gas-phase nor a
  solid-phase product. If moreover the reaction has no tag that begins with
  \<^verbatim>\<open>exothermic\<close> and no positive heat per unit, has no tag that contains \<^verbatim>\<open>gas_evolution\<close>
  and no gas emission effect, and the tile attached to the entry holds no gas species
  above \<open>0.05\<close>, then the sentence is the one of the scenario, with the display name of
  \<^verbatim>\<open>H2O\<close> in it.
\<close>

theorem describeReactionEntry_neutralization:
  assumes "ix (e_id e) = Some rx"
    and "(a, ca) \<in> set (orEmpty (reactants rx))" and "M a = Some ma"
    and "corrosivity ma = Some ''acid'' \<or> ''acid'' \<in> set (orEmpty (hazardTags ma))"
    and "(b, cb) \<in> set (orEmpty (reactants rx))" and "M b = Some mb"
    and "corrosivity mb = Some ''base'' \<or> ''base'' \<in> set (orEmpty (hazardTags mb))"
    and "extent e = Some 0.8" and "limiter e = None"
    and "products e = Some [\<lparr>p_id = ''H2O'', qty = Some 2.0\<rparr>]"
    and "\<not> isGasProduct M ''H2O'' rx" and "\<not> isSolidProduct M ''H2O'' rx"
    and "\<not> list_ex (\<lambda>t. startsWith t ''exothermic'') (orEmpty (tags rx))"
    and "orZero (heatPerUnit (orNoEffects (effects rx))) \<le> 0"
    and "\<not> tag rx ''gas_evolution''" and "\<not> emitGas (orNoEffects (effects rx))"
    and "filter (\<lambda>(k, v). v > 0.05) (case tileRef of None \<Rightarrow> [] | Some t \<Rightarrow> orEmpty (gas t)) = []"
  shows "describeReactionEntry M ix e tileRef =
           Some (''The acid is neutralizing the base, forming '' @ niceName M ''H2O''
                 @ ''. Intensity 80%, rate-limited.'')"
proof -
  have actor: "actorPhrase M rx = ''The acid is neutralizing the base''"
    using assms(2-7) by (rule actorPhrase_neutralization)
  have "find (\<lambda>t. startsWith t ''exothermic'') (orEmpty (tags rx)) = None"
    using assms(13) by (simp add: find_None_iff list_ex_iff)
  then have heatC: "describeHeat rx (orNoEffects (effects rx)) = None"
    using assms(14) by (simp add: describeHeat_def exoLevel_def Let_def)
  have "productGasLoop M rx (orEmpty (products e)) (None, 0) = (None, 0)"
    using assms(10,11) by (simp add: isGasProduct_def)
  then have gasC: "describeGas M rx (orNoEffects (effects rx)) (products e) tileRef = None"
    using assms(15,16,17) by (intro describeGas_none)
  have prods: "describeProducts M (products e) rx = Some (niceName M ''H2O'')"
    using assms(10) by (simp add: describeProducts_def)
  have solid: "find (\<lambda>p. isSolidProduct M (p_id p) rx) (orEmpty (products e)) = None"
    using assms(10,12) by simp
  have lim: "describeLimiter M (limiter e) = ''rate-limited''"
    using assms(9) by (simp add: describeLimiter_def)
  have int: "showInt (mathRound (min 1 (orZero (extent e)) * 100)) = ''80''"
    unfolding assms(8) by (rule intensity_80)
  show ?thesis
    unfolding describeReactionEntry_def
    by (simp add: assms(1) actor heatC gasC prods solid lim int niceName_H2O_nonempty Let_def)
qed

text \<open>
  Hydrochloric acid and sodium hydroxide, with \<^verbatim>\<open>H2O\<close> displayed as ``water''.
\<close>

theorem describeReactionEntry_neutralization_witness:
  "describeReactionEntry
     [''HCl'' \<mapsto> \<lparr>displayName = Some ''hydrochloric acid'', phaseSTP = Some ''l'', corrosivity = Some ''acid'',
                     hazardTags = None, flammability = None, toxicity = None, color = None\<rparr>,
         ''NaOH'' \<mapsto> \<lparr>displayName = Some ''sodium hydroxide'', phaseSTP = Some ''s'', corrosivity = Some ''base'',
                      hazardTags = None, flammability = None, toxicity = None, color = None\<rparr>,
         ''H2O'' \<mapsto> \<lparr>displayName = Some ''water'', phaseSTP = Some ''l'', corrosivity = None,
                     hazardTags = None, flammability = None, toxicity = None, color = None\<rparr>]
     [''neutralize'' \<mapsto> \<lparr>rx_id = ''neutralize'', equation = None, reactants = Some [(''HCl'', 1), (''NaOH'', 1)],
          phases = None, effects = None, tags = None\<rparr>]
     \<lparr>e_id = ''neutralize'', extent = Some 0.8, limiter = None, fizz = False, heat = False,
         products = Some [\<lparr>p_id = ''H2O'', qty = Some 2.0\<rparr>]\<rparr>
     None
   = Some ''The acid is neutralizing the base, forming water. Intensity 80%, rate-limited.''"
  using describeReactionEntry_neutralization
    [where M = "[''HCl'' \<mapsto> \<lparr>displayName = Some ''hydrochloric acid'', phaseSTP = Some ''l'', corrosivity = Some ''acid'',
                     hazardTags = None, flammability = None, toxicity = None, color = None\<rparr>,
         ''NaOH'' \<mapsto> \<lparr>displayName = Some ''sodium hydroxide'', phaseSTP = Some ''s'', corrosivity = Some ''base'',
                      hazardTags = None, flammability = None, toxicity = None, color = None\<rparr>,
         ''H2O'' \<mapsto> \<lparr>displayName = Some ''water'', phaseSTP = Some ''l'', corrosivity = None,
                     hazardTags = None, flammability = None, toxicity = None, color = None\<rparr>]"
       and ix = "[''neutralize'' \<mapsto> \<lparr>rx_id = ''neutralize'', equation = None, reactants = Some [(''HCl'', 1), (''NaOH'', 1)],
          phases = None, effects = None, tags = None\<rparr>]"
       and e = "\<lparr>e_id = ''neutralize'', extent = Some 0.8, limiter = None, fizz = False, heat = False,
         products = Some [\<lparr>p_id = ''H2O'', qty = Some 2.0\<rparr>]\<rparr>"
       and rx = "\<lparr>rx_id = ''neutralize'', equation = None, reactants = Some [(''HCl'', 1), (''NaOH'', 1)],
          phases = None, effects = None, tags = None\<rparr>"
       and a = "''HCl''" and ca = 1 and b = "''NaOH''" and cb = 1
       and ma = "\<lparr>displayName = Some ''hydrochloric acid'', phaseSTP = Some ''l'', corrosivity = Some ''acid'',
                     hazardTags = None, flammability = None, toxicity = None, color = None\<rparr>"
       and mb = "\<lparr>displayName = Some ''sodium hydroxide'', phaseSTP = Some ''s'', corrosivity = Some ''base'',
                      hazardTags = None, flammability = None, toxicity = None, color = None\<rparr>"
       and tileRef = None]
  by (simp add: phrase_defs)

text \<open>
  The claim as stated leaves the heat and the gas of the reaction open. The same entry
  gives another sentence when the reaction is tagged \<^verbatim>\<open>exothermic_strong\<close>, when the tile
  of the entry holds \<open>0.5\<close> of the gas \<^verbatim>\<open>CO2\<close>, and when the reaction is tagged
  \<^verbatim>\<open>gas_evolution\<close>.
\<close>

theorem describeReactionEntry_neutralization_counterexample:
  "describeReactionEntry
     [''HCl'' \<mapsto> \<lparr>displayName = Some ''hydrochloric acid'', phaseSTP = Some ''l'', corrosivity = Some ''acid'',
                     hazardTags = None, flammability = None, toxicity = None, color = None\<rparr>,
         ''NaOH'' \<mapsto> \<lparr>displayName = Some ''sodium hydroxide'', phaseSTP = Some ''s'', corrosivity = Some ''base'',
                      hazardTags = None, flammability = None, toxicity = None, color = None\<rparr>,
         ''H2O'' \<mapsto> \<lparr>displayName = Some ''water'', phaseSTP = Some ''l'', corrosivity = None,
                     hazardTags = None, flammability = None, toxicity = None, color = None\<rparr>]
     [''neutralize'' \<mapsto> \<lparr>rx_id = ''neutralize'', equation = None, reactants = Some [(''HCl'', 1), (''NaOH'', 1)],
          phases = None, effects = None, tags = Some [''exothermic_strong'']\<rparr>]
     \<lparr>e_id = ''neutralize'', extent = Some 0.8, limiter = None, fizz = False, heat = False,
         products = Some [\<lparr>p_id = ''H2O'', qty = Some 2.0\<rparr>]\<rparr>
     None
   = Some ''The acid is neutralizing the base, heating the tile and forming water. Intensity 80%, rate-limited.''
   \<and> describeReactionEntry
     [''HCl'' \<mapsto> \<lparr>displayName = Some ''hydrochloric acid'', phaseSTP = Some ''l'', corrosivity = Some ''acid'',
                     hazardTags = None, flammability = None, toxicity = None, color = None\<rparr>,
         ''NaOH'' \<mapsto> \<lparr>displayName = Some ''sodium hydroxide'', phaseSTP = Some ''s'', corrosivity = Some ''base'',
                      hazardTags = None, flammability = None, toxicity = None, color = None\<rparr>,
         ''H2O'' \<mapsto> \<lparr>displayName = Some ''water'', phaseSTP = Some ''l'', corrosivity = None,
                     hazardTags = None, flammability = None, toxicity = None, color = None\<rparr>]
     [''neutralize'' \<mapsto> \<lparr>rx_id = ''neutralize'', equation = None, reactants = Some [(''HCl'', 1), (''NaOH'', 1)],
          phases = None, effects = None, tags = None\<rparr>]
     \<lparr>e_id = ''neutralize'', extent = Some 0.8, limiter = None, fizz = False, heat = False,
         products = Some [\<lparr>p_id = ''H2O'', qty = Some 2.0\<rparr>]\<rparr>
     (Some \<lparr>temp = 25, pH = 7, moisture = 0.5, pressure = None, species = None,
          gas = Some [(''CO2'', 0.5)], history = None, activity = None, meta = None\<rparr>)
   = Some ''The acid is neutralizing the base, releasing CO2. Intensity 80%, rate-limited.''
   \<and> describeReactionEntry
     [''HCl'' \<mapsto> \<lparr>displayName = Some ''hydrochloric acid'', phaseSTP = Some ''l'', corrosivity = Some ''acid'',
                     hazardTags = None, flammability = None, toxicity = None, color = None\<rparr>,
         ''NaOH'' \<mapsto> \<lparr>displayName = Some ''sodium hydroxide'', phaseSTP = Some ''s'', corrosivity = Some ''base'',
                      hazardTags = None, flammability = None, toxicity = None, color = None\<rparr>,
         ''H2O'' \<mapsto> \<lparr>displayName = Some ''water'', phaseSTP = Some ''l'', corrosivity = None,
                     hazardTags = None, flammability = None, toxicity = None, color = None\<rparr>]
     [''neutralize'' \<mapsto> \<lparr>rx_id = ''neutralize'', equation = None, reactants = Some [(''HCl'', 1), (''NaOH'', 1)],
          phases = None, effects = None, tags = Some [''gas_evolution'']\<rparr>]
     \<lparr>e_id = ''neutralize'', extent = Some 0.8, limiter = None, fizz = False, heat = False,
         products = Some [\<lparr>p_id = ''H2O'', qty = Some 2.0\<rparr>]\<rparr>
     None
   = Some ''The acid is neutralizing the base, releasing gas. Intensity 80%, rate-limited.''"
  by (simp add: phrase_defs)

subsection \<open>An activity entry with an unknown reaction id\<close>

lemma survivors_skip_stale:
  "ix (e_id e) = None \<Longrightarrow>
   survivors ix predicate (xs @ Some e # ys) = survivors ix predicate (xs @ ys)"
  by (induction ix predicate xs rule: survivors.induct) (simp_all split: option.splits)

lemma productionLoop_skip_stale:
  "ix (e_id e) = None \<Longrightarrow>
   productionLoop ix (xs @ Some e # ys) acc = productionLoop ix (xs @ ys) acc"
  by (induction ix xs acc rule: productionLoop.induct) (simp_all split: option.splits)

lemma pickActivity_skip_stale:
  assumes "activity tile = Some (xs @ Some e # ys)" and "ix (e_id e) = None"
  shows "pickActivity ix (tile\<lparr>activity := Some (xs @ ys)\<rparr>) predicate = pickActivity ix tile predicate"
  by (simp add: pickActivity_firstMax assms survivors_skip_stale)

lemma becauseBits_skip_stale:
  assumes "activity tile = Some (xs @ Some e # ys)" and "ix (e_id e) = None"
  shows "becauseBits M ix (tile\<lparr>activity := Some (xs @ ys)\<rparr>) = becauseBits M ix tile"
proof -
  let ?t = "tile\<lparr>activity := Some (xs @ ys)\<rparr>"
  have "becauseTemp M ix ?t = becauseTemp M ix tile"
    and "becausePressure M ix ?t = becausePressure M ix tile"
    and "becauseGas M ix ?t = becauseGas M ix tile"
    and "\<And>dir. becausePH M ix ?t dir = becausePH M ix tile dir"
    using assms
    by (simp_all add: becauseTemp_def becausePressure_def becausePH_def becauseGas_def
          pickActivity_skip_stale)
  then show ?thesis
    by (simp add: becauseBits_def cong: option.case_cong)
qed

lemma summarizeTile_skip_stale:
  assumes "activity tile = Some (xs @ Some e # ys)" and "ix (e_id e) = None"
  shows "summarizeTile M ix (tile\<lparr>activity := Some (xs @ ys)\<rparr>) = summarizeTile M ix tile"
  using assms
  by (simp add: summarizeTile_def becauseBits_skip_stale bits_def trendBits_def
        speciesPairs_def tempWord_def pHWord_def)

lemma buildProductionInsights_skip_stale:
  assumes "activity tile = Some (xs @ Some e # ys)" and "ix (e_id e) = None"
  shows "buildProductionInsights M ix (tile\<lparr>activity := Some (xs @ ys)\<rparr>)
         = buildProductionInsights M ix tile"
  by (simp add: buildProductionInsights_def assms productionLoop_skip_stale)

lemma describeGas_tile_activity:
  "describeGas M rx fx ps (Some (tile\<lparr>activity := x\<rparr>)) = describeGas M rx fx ps (Some tile)"
  by (simp add: describeGas_def)

lemma describeReactionEntry_tile_activity:
  "describeReactionEntry M ix a (Some (tile\<lparr>activity := x\<rparr>)) = describeReactionEntry M ix a (Some tile)"
  by (cases "ix (e_id a)") (simp_all add: describeReactionEntry_def describeGas_tile_activity)

lemma describeReactionEntry_stale: "ix (e_id e) = None \<Longrightarrow> describeReactionEntry M ix e tr = None"
  by (simp add: describeReactionEntry_def)

lemma sorted_three_way:
  fixes k :: "'a \<Rightarrow> real"
  shows "sorted (map k T) \<Longrightarrow>
    T = filter (\<lambda>x. k x < c) T @ filter (\<lambda>x. k x = c) T @ filter (\<lambda>x. c < k x) T"
proof (induction T)
  case Nil
  show ?case by simp
next
  case (Cons y T)
  then have ih: "T = filter (\<lambda>x. k x < c) T @ filter (\<lambda>x. k x = c) T @ filter (\<lambda>x. c < k x) T"
    and ge: "\<forall>x\<in>set T. k y \<le> k x"
    by simp_all
  consider "k y < c" | "k y = c" | "c < k y" by linarith
  then show ?case
  proof cases
    case 1
    then show ?thesis using ih by simp
  next
    case 2
    then have "filter (\<lambda>x. k x < c) T = []" using ge by (auto simp: filter_empty_conv)
    then show ?thesis using 2 ih by simp
  next
    case 3
    then have "filter (\<lambda>x. k x < c) T = []" "filter (\<lambda>x. k x = c) T = []"
      using ge by (auto simp: filter_empty_conv)
    then show ?thesis using 3 ih by simp
  qed
qed

lemma sort_key_three_way:
  fixes k :: "'a \<Rightarrow> real"
  shows "sort_key k L =
    sort_key k (filter (\<lambda>x. k x < c) L) @ filter (\<lambda>x. k x = c) L
      @ sort_key k (filter (\<lambda>x. c < k x) L)"
proof -
  have "sorted (map k (sort_key k L))" by simp
  moreover have "sort_key k (filter (\<lambda>x. k x = c) L) = filter (\<lambda>x. k x = c) L"
    using sort_key_stable[of k c L] by (simp add: filter_sort)
  ultimately show ?thesis
    using sorted_three_way[of k "sort_key k L" c] by (simp add: filter_sort)
qed

lemma sort_key_insert:
  fixes k :: "'a \<Rightarrow> real"
  defines "U A B e \<equiv> sort_key k (filter (\<lambda>x. k x < k e) (A @ B)) @ filter (\<lambda>x. k x = k e) A"
    and "V A B e \<equiv> filter (\<lambda>x. k x = k e) B @ sort_key k (filter (\<lambda>x. k e < k x) (A @ B))"
  shows "sort_key k (A @ e # B) = U A B e @ e # V A B e"
    and "sort_key k (A @ B) = U A B e @ V A B e"
  using sort_key_three_way[of k "A @ e # B" "k e"] sort_key_three_way[of k "A @ B" "k e"]
  by (simp_all add: U_def V_def)

lemma nonNull_append: "nonNull (xs @ ys) = nonNull xs @ nonNull ys"
  by (simp add: nonNull_def List.map_filter_def)

lemma nonNull_Cons_Some: "nonNull (Some e # ys) = e # nonNull ys"
  by (simp add: nonNull_def List.map_filter_def)

lemma acts_nonNull: "acts tile = take 3 (sort_key (\<lambda>a. - orZero (extent a)) (nonNull (orEmpty (activity tile))))"
  by (simp add: acts_def nonNull_def)

lemma map_filter_append: "List.map_filter f (xs @ ys) = List.map_filter f xs @ List.map_filter f ys"
  by (simp add: List.map_filter_def)

lemma productionLoop_all_null: "nonNull es = [] \<Longrightarrow> productionLoop ix es acc = acc"
  by (induction ix es acc rule: productionLoop.induct)
     (simp_all add: nonNull_def List.map_filter_def)

lemma narrateTile_lines:
  "narrateTile M ix tile =
     summarizeTile M ix tile
     # (List.map_filter (\<lambda>a. describeReactionEntry M ix a (Some tile)) (acts tile)
        @ buildProductionInsights M ix tile
        @ (if acts tile = [] \<and> buildProductionInsights M ix tile = []
           then [''No active reactions detected.''] else []))"
  by (simp add: narrateTile_def Let_def)

lemma stale_place:
  fixes d :: "entry \<Rightarrow> string option"
  assumes de: "d e = None"
  shows "List.map_filter d (take 3 (U @ V)) = List.map_filter d (take 3 (U @ e # V))
         \<longleftrightarrow> 3 \<le> length U \<or> List.map_filter d (drop 2 (take 3 (U @ V))) = []"
proof (cases "3 \<le> length U")
  case True
  then show ?thesis by simp
next
  case False
  define n where "n = 2 - length U"
  have lu: "length U \<le> 2" and n: "3 - length U = Suc n" "2 - length U = n"
    using False by (simp_all add: n_def)
  have t3: "take (Suc n) V = take n V @ take 1 (drop n V)"
    using take_add[of n 1 V] by simp
  have a: "take 3 (U @ V) = U @ take n V @ take 1 (drop n V)"
    using lu by (simp add: n t3)
  have b: "take 3 (U @ e # V) = U @ e # take n V"
    using lu False by (simp add: n take_Cons')
  have c: "drop 2 (U @ take n V @ take 1 (drop n V)) = take 1 (drop n V)"
    using lu by (cases "n \<le> length V") (simp_all add: n)
  show ?thesis
    unfolding a b c using False de
    by (simp add: map_filter_append List.map_filter_simps)
qed

text \<open>
  Claim C4, as the source has it. Let an activity entry of a cell reference a reaction id
  that is absent from the reaction index. The entry has no sentence of its own, and the
  summary and the production-insight lines of the cell are those of the cell with the
  entry removed. The entry still is one of the non-null entries from which the three of
  greatest extent are taken, and it counts for the test of no activity. So the whole
  output is that of the cell with the entry removed if and only if the entry is not the
  only non-null entry and, moreover, either at least three other non-null entries come
  before it in the stable order by descending extent (it is not among the three
  selected), or the entry that its removal lets into the three, the third of the other
  entries in that order, does not exist or has no sentence either.
\<close>

theorem narrateTile_stale_entry:
  assumes act: "activity tile = Some (xs @ Some e # ys)" and stale: "ix (e_id e) = None"
  shows "describeReactionEntry M ix e (Some tile) = None
     \<and> summarizeTile M ix (tile\<lparr>activity := Some (xs @ ys)\<rparr>) = summarizeTile M ix tile
     \<and> buildProductionInsights M ix (tile\<lparr>activity := Some (xs @ ys)\<rparr>)
          = buildProductionInsights M ix tile
     \<and> (narrateTile M ix (tile\<lparr>activity := Some (xs @ ys)\<rparr>) = narrateTile M ix tile
          \<longleftrightarrow> nonNull (xs @ ys) \<noteq> []
              \<and> (3 \<le> precede e xs ys
                 \<or> List.map_filter (\<lambda>a. describeReactionEntry M ix a (Some tile))
                      (drop 2 (acts (tile\<lparr>activity := Some (xs @ ys)\<rparr>))) = []))"
proof (intro conjI)
  show "describeReactionEntry M ix e (Some tile) = None"
    using stale by (rule describeReactionEntry_stale)
  show sm: "summarizeTile M ix (tile\<lparr>activity := Some (xs @ ys)\<rparr>) = summarizeTile M ix tile"
    using assms by (rule summarizeTile_skip_stale)
  show pr: "buildProductionInsights M ix (tile\<lparr>activity := Some (xs @ ys)\<rparr>)
          = buildProductionInsights M ix tile"
    using assms by (rule buildProductionInsights_skip_stale)
  let ?t = "tile\<lparr>activity := Some (xs @ ys)\<rparr>"
  define A where "A = nonNull xs"
  define B where "B = nonNull ys"
  define k :: "entry \<Rightarrow> real" where "k = (\<lambda>a. - orZero (extent a))"
  define d :: "entry \<Rightarrow> string option" where "d = (\<lambda>a. describeReactionEntry M ix a (Some tile))"
  define U where "U = sort_key k (filter (\<lambda>x. k x < k e) (A @ B)) @ filter (\<lambda>x. k x = k e) A"
  define V where "V = filter (\<lambda>x. k x = k e) B @ sort_key k (filter (\<lambda>x. k e < k x) (A @ B))"
  define P where "P = buildProductionInsights M ix tile"
  have S: "sort_key k (A @ e # B) = U @ e # V" and S': "sort_key k (A @ B) = U @ V"
    unfolding U_def V_def by (rule sort_key_insert)+
  have lenU: "length U = precede e xs ys"
    by (simp add: U_def precede_def nonNull_append A_def B_def k_def)
  have de: "d e = None"
    unfolding d_def using stale by (rule describeReactionEntry_stale)
  have acts: "acts tile = take 3 (U @ e # V)"
    by (simp add: acts_nonNull act nonNull_append nonNull_Cons_Some A_def[symmetric]
          B_def[symmetric] k_def[symmetric] S)
  have acts': "acts ?t = take 3 (U @ V)"
    by (simp add: acts_nonNull nonNull_append A_def[symmetric] B_def[symmetric]
          k_def[symmetric] S')
  have d': "(\<lambda>a. describeReactionEntry M ix a (Some ?t)) = d"
    by (simp add: d_def describeReactionEntry_tile_activity)
  have n: "narrateTile M ix tile
           = summarizeTile M ix tile # (List.map_filter d (take 3 (U @ e # V)) @ P)"
  proof -
    have "acts tile \<noteq> []"
      unfolding acts by (cases U) (simp_all add: take_Cons')
    then have "narrateTile M ix tile
               = summarizeTile M ix tile # (List.map_filter d (acts tile) @ P)"
      by (simp add: narrateTile_lines d_def P_def)
    then show ?thesis by (simp only: acts)
  qed
  have n': "narrateTile M ix ?t
            = summarizeTile M ix tile
              # (List.map_filter d (take 3 (U @ V)) @ P
                 @ (if take 3 (U @ V) = [] \<and> P = [] then [''No active reactions detected.''] else []))"
    unfolding narrateTile_lines[of M ix ?t] acts' d' sm pr P_def[symmetric] by (rule refl)
  have ne: "nonNull (xs @ ys) \<noteq> [] \<longleftrightarrow> U @ V \<noteq> []"
    using S' by (metis A_def B_def nonNull_append length_0_conv length_sort)
  show "narrateTile M ix ?t = narrateTile M ix tile
          \<longleftrightarrow> nonNull (xs @ ys) \<noteq> []
              \<and> (3 \<le> precede e xs ys
                 \<or> List.map_filter (\<lambda>a. describeReactionEntry M ix a (Some tile)) (drop 2 (acts ?t)) = [])"
  proof (cases "U @ V = []")
    case True
    then have "nonNull (xs @ ys) = []" using ne by simp
    then have "productionLoop ix (xs @ ys) [] = []" by (rule productionLoop_all_null)
    then have "P = []"
      unfolding P_def pr[symmetric] by (simp add: buildProductionInsights_def List.map_filter_simps)
    then show ?thesis
      using True de ne by (simp add: n n' List.map_filter_simps)
  next
    case False
    then have t: "take 3 (U @ V) \<noteq> []" by (cases "U @ V") simp_all
    have n'': "narrateTile M ix ?t
               = summarizeTile M ix tile # (List.map_filter d (take 3 (U @ V)) @ P)"
      unfolding n' using t by (simp only: if_False simp_thms append_Nil2)
    have "narrateTile M ix ?t = narrateTile M ix tile
               \<longleftrightarrow> List.map_filter d (take 3 (U @ V)) = List.map_filter d (take 3 (U @ e # V))"
      unfolding n n'' by (simp only: list.inject append_same_eq simp_thms)
    then show ?thesis
      using False ne stale_place[of d e U V] de
      by (simp add: lenU acts' d_def[symmetric])
  qed
qed

text \<open>The definitions that evaluate the narration on a given tile.\<close>

lemmas narrate_defs =
  narrateTile_def acts_def summarizeTile_def bits_def trendBits_def becauseBits_def speciesPairs_def
  buildProductionInsights_def productionLine_def tempWord_def pHWord_def trendLabelTemp_def
  trendLabelPressure_def trendLabelPH_def trendLabelGas_def trendOf_def lastN_def
  List.map_filter_simps

text \<open>
  Three known reactions and a stale entry of the least extent behind them: three entries
  come before the stale one, and the narration with and without it is the summary and the
  three sentences. And a stale entry of the greatest extent before one known reaction: it
  is among the selected, no entry takes its place, and the narration is the same again.
\<close>

theorem narrateTile_stale_entry_witness:
  "narrateTile (\<lambda>i. None) [''burn'' \<mapsto> \<lparr>rx_id = ''burn'', equation = None, reactants = None, phases = None, effects = None, tags = None\<rparr>]
     (\<lparr>temp = 25, pH = 7, moisture = 0.5, pressure = None, species = None, gas = None,
        history = None, activity = Some [Some \<lparr>e_id = ''burn'', extent = Some 0.9, limiter = None, fizz = False, heat = False, products = None\<rparr>,
          Some \<lparr>e_id = ''burn'', extent = Some 0.8, limiter = None, fizz = False, heat = False, products = None\<rparr>,
          Some \<lparr>e_id = ''burn'', extent = Some 0.7, limiter = None, fizz = False, heat = False, products = None\<rparr>,
          Some \<lparr>e_id = ''stale'', extent = Some 0.1, limiter = None, fizz = False, heat = False, products = None\<rparr>], meta = None\<rparr>\<lparr>activity := Some ([Some \<lparr>e_id = ''burn'', extent = Some 0.9, limiter = None, fizz = False, heat = False, products = None\<rparr>,
          Some \<lparr>e_id = ''burn'', extent = Some 0.8, limiter = None, fizz = False, heat = False, products = None\<rparr>,
          Some \<lparr>e_id = ''burn'', extent = Some 0.7, limiter = None, fizz = False, heat = False, products = None\<rparr>] @ [])\<rparr>)
   = narrateTile (\<lambda>i. None) [''burn'' \<mapsto> \<lparr>rx_id = ''burn'', equation = None, reactants = None, phases = None, effects = None, tags = None\<rparr>]
       \<lparr>temp = 25, pH = 7, moisture = 0.5, pressure = None, species = None, gas = None,
        history = None, activity = Some [Some \<lparr>e_id = ''burn'', extent = Some 0.9, limiter = None, fizz = False, heat = False, products = None\<rparr>,
          Some \<lparr>e_id = ''burn'', extent = Some 0.8, limiter = None, fizz = False, heat = False, products = None\<rparr>,
          Some \<lparr>e_id = ''burn'', extent = Some 0.7, limiter = None, fizz = False, heat = False, products = None\<rparr>,
          Some \<lparr>e_id = ''stale'', extent = Some 0.1, limiter = None, fizz = False, heat = False, products = None\<rparr>], meta = None\<rparr>
   \<and> narrateTile (\<lambda>i. None) [''burn'' \<mapsto> \<lparr>rx_id = ''burn'', equation = None, reactants = None, phases = None, effects = None, tags = None\<rparr>]
       \<lparr>temp = 25, pH = 7, moisture = 0.5, pressure = None, species = None, gas = None,
        history = None, activity = Some [Some \<lparr>e_id = ''burn'', extent = Some 0.9, limiter = None, fizz = False, heat = False, products = None\<rparr>,
          Some \<lparr>e_id = ''burn'', extent = Some 0.8, limiter = None, fizz = False, heat = False, products = None\<rparr>,
          Some \<lparr>e_id = ''burn'', extent = Some 0.7, limiter = None, fizz = False, heat = False, products = None\<rparr>,
          Some \<lparr>e_id = ''stale'', extent = Some 0.1, limiter = None, fizz = False, heat = False, products = None\<rparr>], meta = None\<rparr>
     = [''This tile is temperate, near neutral.'',
        ''A reaction is proceeding. Intensity 90%, rate-limited.'',
        ''A reaction is proceeding. Intensity 80%, rate-limited.'',
        ''A reaction is proceeding. Intensity 70%, rate-limited.'']
   \<and> narrateTile (\<lambda>i. None) [''burn'' \<mapsto> \<lparr>rx_id = ''burn'', equation = None, reactants = None, phases = None, effects = None, tags = None\<rparr>]
     (\<lparr>temp = 25, pH = 7, moisture = 0.5, pressure = None, species = None, gas = None,
        history = None, activity = Some [Some \<lparr>e_id = ''stale'', extent = Some 1, limiter = None, fizz = False, heat = False, products = None\<rparr>,
          Some \<lparr>e_id = ''burn'', extent = Some 0.9, limiter = None, fizz = False, heat = False, products = None\<rparr>], meta = None\<rparr>\<lparr>activity := Some ([] @ [Some \<lparr>e_id = ''burn'', extent = Some 0.9, limiter = None, fizz = False, heat = False, products = None\<rparr>])\<rparr>)
   = narrateTile (\<lambda>i. None) [''burn'' \<mapsto> \<lparr>rx_id = ''burn'', equation = None, reactants = None, phases = None, effects = None, tags = None\<rparr>]
       \<lparr>temp = 25, pH = 7, moisture = 0.5, pressure = None, species = None, gas = None,
        history = None, activity = Some [Some \<lparr>e_id = ''stale'', extent = Some 1, limiter = None, fizz = False, heat = False, products = None\<rparr>,
          Some \<lparr>e_id = ''burn'', extent = Some 0.9, limiter = None, fizz = False, heat = False, products = None\<rparr>], meta = None\<rparr>"
  using narrateTile_stale_entry
    [where tile = "\<lparr>temp = 25, pH = 7, moisture = 0.5, pressure = None, species = None, gas = None,
        history = None, activity = Some [Some \<lparr>e_id = ''burn'', extent = Some 0.9, limiter = None, fizz = False, heat = False, products = None\<rparr>,
          Some \<lparr>e_id = ''burn'', extent = Some 0.8, limiter = None, fizz = False, heat = False, products = None\<rparr>,
          Some \<lparr>e_id = ''burn'', extent = Some 0.7, limiter = None, fizz = False, heat = False, products = None\<rparr>,
          Some \<lparr>e_id = ''stale'', extent = Some 0.1, limiter = None, fizz = False, heat = False, products = None\<rparr>], meta = None\<rparr>"
       and xs = "[Some \<lparr>e_id = ''burn'', extent = Some 0.9, limiter = None, fizz = False, heat = False, products = None\<rparr>,
          Some \<lparr>e_id = ''burn'', extent = Some 0.8, limiter = None, fizz = False, heat = False, products = None\<rparr>,
          Some \<lparr>e_id = ''burn'', extent = Some 0.7, limiter = None, fizz = False, heat = False, products = None\<rparr>]"
       and e = "\<lparr>e_id = ''stale'', extent = Some 0.1, limiter = None, fizz = False, heat = False, products = None\<rparr>"
       and ys = "[]"
       and ix = "[''burn'' \<mapsto> \<lparr>rx_id = ''burn'', equation = None, reactants = None, phases = None, effects = None, tags = None\<rparr>]" and M = "(\<lambda>i. None)"]
    narrateTile_stale_entry
    [where tile = "\<lparr>temp = 25, pH = 7, moisture = 0.5, pressure = None, species = None, gas = None,
        history = None, activity = Some [Some \<lparr>e_id = ''stale'', extent = Some 1, limiter = None, fizz = False, heat = False, products = None\<rparr>,
          Some \<lparr>e_id = ''burn'', extent = Some 0.9, limiter = None, fizz = False, heat = False, products = None\<rparr>], meta = None\<rparr>"
       and xs = "[]" and e = "\<lparr>e_id = ''stale'', extent = Some 1, limiter = None, fizz = False, heat = False, products = None\<rparr>"
       and ys = "[Some \<lparr>e_id = ''burn'', extent = Some 0.9, limiter = None, fizz = False, heat = False, products = None\<rparr>]"
       and ix = "[''burn'' \<mapsto> \<lparr>rx_id = ''burn'', equation = None, reactants = None, phases = None, effects = None, tags = None\<rparr>]" and M = "(\<lambda>i. None)"]
  by (simp add: narrate_defs phrase_defs precede_def nonNull_def)

text \<open>
  The claim as stated does not hold. A cell whose only entry is stale gets the summary
  alone, the cell without the entry gets the line of no activity as well; and a stale
  entry of the greatest extent before three known ones takes one of the three places,
  so that the third known reaction has a sentence only once the stale entry is removed.
\<close>

theorem narrateTile_stale_entry_counterexample:
  "narrateTile (\<lambda>i. None) (\<lambda>i. None)
     \<lparr>temp = 25, pH = 7, moisture = 0.5, pressure = None, species = None, gas = None,
        history = None, activity = Some [Some \<lparr>e_id = ''stale'', extent = Some 1, limiter = None, fizz = False, heat = False, products = None\<rparr>], meta = None\<rparr>
   = [''This tile is temperate, near neutral.'']
   \<and> narrateTile (\<lambda>i. None) (\<lambda>i. None)
     \<lparr>temp = 25, pH = 7, moisture = 0.5, pressure = None, species = None, gas = None,
        history = None, activity = Some [], meta = None\<rparr>
   = [''This tile is temperate, near neutral.'', ''No active reactions detected.'']
   \<and> narrateTile (\<lambda>i. None) [''burn'' \<mapsto> \<lparr>rx_id = ''burn'', equation = None, reactants = None, phases = None, effects = None, tags = None\<rparr>]
     \<lparr>temp = 25, pH = 7, moisture = 0.5, pressure = None, species = None, gas = None,
        history = None, activity = Some [Some \<lparr>e_id = ''stale'', extent = Some 1, limiter = None, fizz = False, heat = False, products = None\<rparr>,
          Some \<lparr>e_id = ''burn'', extent = Some 0.9, limiter = None, fizz = False, heat = False, products = None\<rparr>,
          Some \<lparr>e_id = ''burn'', extent = Some 0.8, limiter = None, fizz = False, heat = False, products = None\<rparr>,
          Some \<lparr>e_id = ''burn'', extent = Some 0.7, limiter = None, fizz = False, heat = False, products = None\<rparr>], meta = None\<rparr>
   = [''This tile is temperate, near neutral.'',
      ''A reaction is proceeding. Intensity 90%, rate-limited.'',
      ''A reaction is proceeding. Intensity 80%, rate-limited.'']
   \<and> narrateTile (\<lambda>i. None) [''burn'' \<mapsto> \<lparr>rx_id = ''burn'', equation = None, reactants = None, phases = None, effects = None, tags = None\<rparr>]
     \<lparr>temp = 25, pH = 7, moisture = 0.5, pressure = None, species = None, gas = None,
        history = None, activity = Some [Some \<lparr>e_id = ''burn'', extent = Some 0.9, limiter = None, fizz = False, heat = False, products = None\<rparr>,
          Some \<lparr>e_id = ''burn'', extent = Some 0.8, limiter = None, fizz = False, heat = False, products = None\<rparr>,
          Some \<lparr>e_id = ''burn'', extent = Some 0.7, limiter = None, fizz = False, heat = False, products = None\<rparr>], meta = None\<rparr>
   = [''This tile is temperate, near neutral.'',
      ''A reaction is proceeding. Intensity 90%, rate-limited.'',
      ''A reaction is proceeding. Intensity 80%, rate-limited.'',
      ''A reaction is proceeding. Intensity 70%, rate-limited.'']"
  by (simp add: narrate_defs phrase_defs)

subsection \<open>A product list that holds null\<close>

text \<open>
  On a tile without \<^verbatim>\<open>null\<close> products the functions on raw tiles return what the
  functions on tiles return, and raise nothing.
\<close>

lemma eachP_Some: "eachP (map Some ps) = Inr ps"
  by (induction ps) simp_all

lemma someP_Some: "someP f (map Some ps) = Inr (list_ex f ps)"
  by (induction ps) simp_all

lemma products_raw: "orEmpty (products (rawEntryOf e)) = map Some (orEmpty (products e))"
  by (simp add: rawEntryOf_def split: option.splits)

lemma activity_raw: "orEmpty (activity (rawTileOf tile)) = map (map_option rawEntryOf) (orEmpty (activity tile))"
  by (simp add: rawTileOf_def split: option.splits)

lemma fields_raw [simp]:
  "e_id (rawEntryOf e) = e_id e" "extent (rawEntryOf e) = extent e"
  "limiter (rawEntryOf e) = limiter e" "heat (rawEntryOf e) = heat e"
  "fizz (rawEntryOf e) = fizz e"
  by (simp_all add: rawEntryOf_def)

lemma tile_fields_raw [simp]:
  "temp (rawTileOf tile) = temp tile" "pH (rawTileOf tile) = pH tile"
  "pressure (rawTileOf tile) = pressure tile" "species (rawTileOf tile) = species tile"
  "gas (rawTileOf tile) = gas tile" "history (rawTileOf tile) = history tile"
  by (simp_all add: rawTileOf_def)

lemma predicates_raw:
  "phPredicateE M dir (rawEntryOf e) rx = Inr (phPredicate M dir e rx)"
  "gasPredicateE M (rawEntryOf e) rx = Inr (gasPredicate M e rx)"
  "pressurePredicateE M (rawEntryOf e) rx = Inr (pressurePredicate M e rx)"
  "tempPredicate (rawEntryOf e) rx = tempPredicate e rx"
  by (simp_all add: phPredicateE_def phPredicate_def gasPredicateE_def gasPredicate_def
        pressurePredicateE_def pressurePredicate_def tempPredicate_def products_raw someP_Some
        Let_def)

lemma pickLoopE_raw:
  assumes "\<And>e rx. pE (rawEntryOf e) rx = Inr (p e rx)"
  shows "pickLoopE ix pE (map (map_option rawEntryOf) es) (map_option (apfst rawEntryOf) b, bs)
         = Inr (map_option (apfst rawEntryOf) (fst (pickLoop ix (Some p) es (b, bs))),
                snd (pickLoop ix (Some p) es (b, bs)))"
proof (induction es arbitrary: b bs)
  case Nil
  show ?case by simp
next
  case (Cons x es)
  show ?case
  proof (cases x)
    case None
    then show ?thesis using Cons.IH by simp
  next
    case (Some e)
    show ?thesis
    proof (cases "ix (e_id e)")
      case None
      then show ?thesis using Cons.IH[of b bs] by (simp add: \<open>x = Some e\<close>)
    next
      case (Some rx)
      show ?thesis
        using Cons.IH[of b bs] Cons.IH[of "Some (e, rx)" "Some (orZero (extent e))"]
        by (simp add: \<open>x = Some e\<close> Some assms Let_def)
    qed
  qed
qed

lemma pickLoop_raw:
  assumes "\<And>e rx. q (rawEntryOf e) rx = p e rx"
  shows "pickLoop ix (Some q) (map (map_option rawEntryOf) es) (map_option (apfst rawEntryOf) b, bs)
         = (map_option (apfst rawEntryOf) (fst (pickLoop ix (Some p) es (b, bs))),
            snd (pickLoop ix (Some p) es (b, bs)))"
proof (induction es arbitrary: b bs)
  case Nil
  show ?case by simp
next
  case (Cons x es)
  show ?case
  proof (cases x)
    case None
    then show ?thesis using Cons.IH by simp
  next
    case (Some e)
    show ?thesis
    proof (cases "ix (e_id e)")
      case None
      then show ?thesis using Cons.IH[of b bs] by (simp add: \<open>x = Some e\<close>)
    next
      case (Some rx)
      show ?thesis
        using Cons.IH[of b bs] Cons.IH[of "Some (e, rx)" "Some (orZero (extent e))"]
        by (simp add: \<open>x = Some e\<close> Some assms Let_def)
    qed
  qed
qed

lemma pickActivityE_raw:
  assumes "\<And>e rx. pE (rawEntryOf e) rx = Inr (p e rx)"
  shows "pickActivityE ix (rawTileOf tile) pE
         = Inr (map_option (apfst rawEntryOf) (pickActivity ix tile (Some p)))"
  using pickLoopE_raw[of pE p ix "orEmpty (activity tile)" None None, OF assms]
  by (simp add: pickActivityE_def pickActivity_def activity_raw)

lemma pickActivity_raw:
  assumes "\<And>e rx. q (rawEntryOf e) rx = p e rx"
  shows "pickActivity ix (rawTileOf tile) (Some q)
         = map_option (apfst rawEntryOf) (pickActivity ix tile (Some p))"
  using pickLoop_raw[of q p ix "orEmpty (activity tile)" None None, OF assms]
  by (simp add: pickActivity_def activity_raw)

lemma because_raw:
  "becauseTemp M ix (rawTileOf tile) = becauseTemp M ix tile"
  "becausePHE M ix (rawTileOf tile) dir = Inr (becausePH M ix tile dir)"
  "becauseGasE M ix (rawTileOf tile) = Inr (becauseGas M ix tile)"
  "becausePressureE M ix (rawTileOf tile) = Inr (becausePressure M ix tile)"
proof -
  have t: "pickActivity ix (rawTileOf tile) (Some tempPredicate)
           = map_option (apfst rawEntryOf) (pickActivity ix tile (Some tempPredicate))"
    by (rule pickActivity_raw) (rule predicates_raw)
  have ph: "pickActivityE ix (rawTileOf tile) (phPredicateE M dir)
            = Inr (map_option (apfst rawEntryOf) (pickActivity ix tile (Some (phPredicate M dir))))"
    by (rule pickActivityE_raw) (rule predicates_raw)
  have g: "pickActivityE ix (rawTileOf tile) (gasPredicateE M)
           = Inr (map_option (apfst rawEntryOf) (pickActivity ix tile (Some (gasPredicate M))))"
    by (rule pickActivityE_raw) (rule predicates_raw)
  have pr: "pickActivityE ix (rawTileOf tile) (pressurePredicateE M)
            = Inr (map_option (apfst rawEntryOf) (pickActivity ix tile (Some (pressurePredicate M))))"
    by (rule pickActivityE_raw) (rule predicates_raw)
  show "becauseTemp M ix (rawTileOf tile) = becauseTemp M ix tile"
    by (simp add: becauseTemp_def t split: option.splits)
  show "becausePHE M ix (rawTileOf tile) dir = Inr (becausePH M ix tile dir)"
    by (simp add: becausePHE_def becausePH_def ph products_raw eachP_Some Let_def
          split: option.splits)
  show "becauseGasE M ix (rawTileOf tile) = Inr (becauseGas M ix tile)"
    by (simp add: becauseGasE_def becauseGas_def g products_raw eachP_Some Let_def
          split: option.splits)
  show "becausePressureE M ix (rawTileOf tile) = Inr (becausePressure M ix tile)"
    by (simp add: becausePressureE_def becausePressure_def pr products_raw eachP_Some Let_def
          split: option.splits)
qed

lemma becauseBitsE_raw: "becauseBitsE M ix (rawTileOf tile) = Inr (becauseBits M ix tile)"
  by (simp add: becauseBitsE_def becauseBits_def because_raw Let_def split: option.splits)

lemma summarizeTileE_raw: "summarizeTileE M ix (rawTileOf tile) = Inr (summarizeTile M ix tile)"
  by (simp add: summarizeTileE_def summarizeTile_def becauseBitsE_raw bits_def trendBits_def
        speciesPairs_def tempWord_def pHWord_def Let_def)


lemma insort_key_map:
  "insort_key k (f x) (map f xs) = map f (insort_key (\<lambda>a. k (f a)) x xs)"
  by (induction xs) simp_all

lemma sort_key_map: "sort_key k (map f xs) = map f (sort_key (\<lambda>a. k (f a)) xs)"
  by (induction xs) (simp_all add: insort_key_map)

lemma map_filter_id_map:
  "List.map_filter (\<lambda>x. x) (map (map_option f) es) = map f (List.map_filter (\<lambda>x. x) es)"
  by (induction es) (auto simp: List.map_filter_simps split: option.splits)

lemma acts_raw: "acts (rawTileOf tile) = map rawEntryOf (acts tile)"
  by (simp add: acts_def activity_raw map_filter_id_map sort_key_map take_map)

lemma describeGas_same_gas:
  "gas t1 = gas t2 \<Longrightarrow> describeGas M rx fx ps (Some t1) = describeGas M rx fx ps (Some t2)"
  by (simp add: describeGas_def)

lemma describeReactionEntry_same_gas:
  "gas t1 = gas t2 \<Longrightarrow>
   describeReactionEntry M ix a (Some t1) = describeReactionEntry M ix a (Some t2)"
  by (cases "ix (e_id a)")
     (simp_all add: describeReactionEntry_def describeGas_same_gas[of t1 t2])

lemma describeReactionEntryE_raw:
  "describeReactionEntryE M ix (rawEntryOf a) (Some (rawTileOf tile))
   = Inr (describeReactionEntry M ix a (Some tile))"
proof (cases "ix (e_id a)")
  case None
  then show ?thesis by (simp add: describeReactionEntryE_def describeReactionEntry_def)
next
  case (Some rx)
  have r: "\<lparr>e_id = e_id a, extent = extent a, limiter = limiter a, fizz = fizz a, heat = heat a,
            products = (case products (rawEntryOf a) of None \<Rightarrow> None
                        | Some _ \<Rightarrow> Some (orEmpty (products a)))\<rparr> = a"
    by (cases a) (simp add: rawEntryOf_def split: option.splits)
  have g: "describeReactionEntry M ix a (Some (rawTileOf tile))
           = describeReactionEntry M ix a (Some tile)"
    by (rule describeReactionEntry_same_gas) simp
  show ?thesis
    by (simp add: describeReactionEntryE_def Some products_raw eachP_Some r g)
qed


lemma describeEach_raw:
  "describeEach M ix (rawTileOf tile) (map rawEntryOf as)
   = Inr (List.map_filter (\<lambda>a. describeReactionEntry M ix a (Some tile)) as)"
  by (induction as)
     (simp_all add: describeReactionEntryE_raw List.map_filter_simps split: option.splits)

lemma pushSource_map:
  "pushSource k (f v) (map (apsnd (map f)) acc) = map (apsnd (map f)) (pushSource k v acc)"
  by (induction k v acc rule: pushSource.induct) simp_all

lemma productLoopE_raw:
  "productLoopE (rawEntryOf e) rx (map Some ps) (map (apsnd (map (apfst rawEntryOf))) acc)
   = map (apsnd (map (apfst rawEntryOf))) (productLoop e rx ps acc)"
proof (induction ps arbitrary: acc)
  case Nil
  show ?case by simp
next
  case (Cons p ps)
  show ?case
    using Cons.IH[of acc] Cons.IH[of "pushSource (p_id p) (e, rx, orZero (qty p)) acc"]
      pushSource_map[of "p_id p" "apfst rawEntryOf" "(e, rx, orZero (qty p))" acc]
    by simp
qed

lemma productionLoopE_raw:
  "productionLoopE ix (map (map_option rawEntryOf) es) (map (apsnd (map (apfst rawEntryOf))) acc)
   = map (apsnd (map (apfst rawEntryOf))) (productionLoop ix es acc)"
proof (induction ix es acc rule: productionLoop.induct)
  case (1 ix productions)
  show ?case by simp
next
  case (2 ix es productions)
  then show ?case by simp
next
  case (3 ix e es productions)
  then show ?case
    by (simp add: products_raw productLoopE_raw split: option.splits)
qed

lemma productionLine_raw:
  "productionLine M (apsnd (map (apfst rawEntryOf)) ps) = productionLine M ps"
proof -
  have l: "(\<lambda>x. case apfst rawEntryOf x of (e', rx', q') \<Rightarrow> reactionLabel rx')
           = (\<lambda>(e', rx', q'). reactionLabel rx')"
    by (auto simp: fun_eq_iff)
  show ?thesis
    by (cases ps) (auto simp: productionLine_def Let_def comp_def l split: list.splits prod.splits)
qed

lemma buildProductionInsightsE_raw:
  "buildProductionInsightsE M ix (rawTileOf tile) = buildProductionInsights M ix tile"
  using productionLoopE_raw[of ix "orEmpty (activity tile)" "[]"]
  by (simp add: buildProductionInsightsE_def buildProductionInsights_def activity_raw
        List.map_filter_def filter_map comp_def productionLine_raw)

lemma narrateTileE_raw:
  "narrateTileE M ix (rawTileOf tile) = Inr (narrateTile M ix tile)"
  by (simp add: narrateTileE_def narrateTile_def summarizeTileE_raw acts_raw describeEach_raw
        buildProductionInsightsE_raw Let_def)

text \<open>Whenever the narration returns, its list is not empty and begins with the summary.\<close>

lemma narrateTileE_returns:
  assumes "narrateTileE M ix tile = Inr ls"
  shows "ls \<noteq> [] \<and> startsWith (hd ls) ''This tile is ''"
  using assms
  by (auto simp: narrateTileE_def summarizeTileE_def Let_def startsWith_def
        split: sum.splits if_splits)

text \<open>The definitions that evaluate the narration on a given raw tile.\<close>

lemmas narrateE_defs =
  narrateTileE_def summarizeTileE_def becauseBitsE_def describeReactionEntryE_def
  buildProductionInsightsE_def

text \<open>
  Claim C8 asks that \<open>narrateTile\<close> return a list that is not empty, with the summary
  first, for every cell. It does for every cell without \<^verbatim>\<open>null\<close> products, but not for every
  cell: for the cell below, whose one activity entry references the known reaction
  \<^verbatim>\<open>burn\<close> and has the product list \<^verbatim>\<open>[null]\<close>, the loop of \<^verbatim>\<open>describeGas\<close> reads \<^verbatim>\<open>p.id\<close> of
  \<^verbatim>\<open>null\<close> and the narration raises a \<^verbatim>\<open>TypeError\<close>, although \<^verbatim>\<open>buildProductionInsights\<close>
  guards the same list against \<^verbatim>\<open>null\<close>.
\<close>

theorem narrateTile_null_product_raises:
  "narrateTileE (\<lambda>i. None)
     [''burn'' \<mapsto> \<lparr>rx_id = ''burn'', equation = None, reactants = None, phases = None,
                     effects = None, tags = None\<rparr>]
     \<lparr>temp = 25, pH = 7, moisture = 0.5, pressure = None, species = None, gas = None,
      history = None,
      activity = Some [Some \<lparr>e_id = ''burn'', extent = Some 0.5, limiter = None, fizz = False,
                             heat = False, products = Some [None]\<rparr>],
      meta = None\<rparr>
   = Inl TypeError"
  by (simp add: narrateE_defs narrate_defs phrase_defs)

end
